theory Spec2Isabelle
  imports Complex_Main
begin

section \<open>JavaScript numbers\<close>

text \<open>
  Money, quantities and costs are JavaScript Numbers: IEEE-754 binary64 values.  A finite
  value is kept as the rational it denotes; every arithmetic operation computes the exact
  rational result and rounds it to the nearest value with a 53-bit significand (ties to
  even), with gradual underflow below \<open>2 powi (-1022)\<close> and overflow to an infinity from
  \<open>2 ^ 1024\<close> on.  The two zeros are identified: no operation of the code modelled here
  tells them apart.
\<close>

datatype number = Fin rat | PInf | NInf | NaN

function bitLength :: "int \<Rightarrow> int" where
  \<comment> \<open>the number of binary digits of a positive integer\<close>
  "bitLength n = (if n \<le> 0 then 0 else 1 + bitLength (n div 2))"
  by pat_completeness auto
termination
  by (relation "measure nat") auto

declare bitLength.simps [simp del]

definition pow2 :: "int \<Rightarrow> rat" where
  \<comment> \<open>\<open>2 powi e\<close>, computed on integers\<close>
  "pow2 e = (if 0 \<le> e then of_int (2 ^ nat e) else 1 / of_int (2 ^ nat (- e)))"

definition ilog2 :: "rat \<Rightarrow> int" where
  \<comment> \<open>the binary exponent of a positive rational: the floor of its logarithm to base 2\<close>
  "ilog2 q = (if 1 \<le> q then bitLength \<lfloor>q\<rfloor> - 1 else - bitLength (\<lceil>1 / q\<rceil> - 1))"

definition roundHalfEven :: "rat \<Rightarrow> int" where
  "roundHalfEven x =
     (let f = \<lfloor>x\<rfloor>; r = x - of_int f
      in if r < 1 / 2 then f else if 1 / 2 < r then f + 1 else if even f then f else f + 1)"

definition roundDouble :: "rat \<Rightarrow> number" where
  "roundDouble q =
     (if q = 0 then Fin 0
      else let e = max (ilog2 \<bar>q\<bar> - 52) (- 1074);
               r = of_int (roundHalfEven (q / pow2 e)) * pow2 e
           in if pow2 1024 \<le> \<bar>r\<bar> then (if 0 < r then PInf else NInf) else Fin r)"

fun num_neg :: "number \<Rightarrow> number" where
  "num_neg (Fin a) = Fin (- a)"
| "num_neg PInf = NInf"
| "num_neg NInf = PInf"
| "num_neg NaN = NaN"

fun num_add :: "number \<Rightarrow> number \<Rightarrow> number" where
  "num_add NaN _ = NaN"
| "num_add _ NaN = NaN"
| "num_add (Fin a) (Fin b) = roundDouble (a + b)"
| "num_add PInf NInf = NaN"
| "num_add NInf PInf = NaN"
| "num_add PInf _ = PInf"
| "num_add NInf _ = NInf"
| "num_add (Fin a) b = b"

definition num_sub :: "number \<Rightarrow> number \<Rightarrow> number" where
  "num_sub a b = num_add a (num_neg b)"

fun num_sgn :: "number \<Rightarrow> int" where
  "num_sgn (Fin a) = sgn \<lfloor>sgn a\<rfloor>"
| "num_sgn PInf = 1"
| "num_sgn NInf = - 1"
| "num_sgn NaN = 0"

fun num_mul :: "number \<Rightarrow> number \<Rightarrow> number" where
  "num_mul NaN _ = NaN"
| "num_mul _ NaN = NaN"
| "num_mul (Fin a) (Fin b) = roundDouble (a * b)"
| "num_mul a b =
     (let s = num_sgn a * num_sgn b
      in if s = 0 then NaN else if 0 < s then PInf else NInf)"

fun num_less :: "number \<Rightarrow> number \<Rightarrow> bool" where
  "num_less NaN _ = False"
| "num_less _ NaN = False"
| "num_less (Fin a) (Fin b) = (a < b)"
| "num_less PInf _ = False"
| "num_less _ PInf = True"
| "num_less NInf NInf = False"
| "num_less NInf _ = True"
| "num_less _ NInf = False"

definition num_gt :: "number \<Rightarrow> number \<Rightarrow> bool" where
  "num_gt a b = num_less b a"

definition Math_max :: "number \<Rightarrow> number \<Rightarrow> number" where
  \<comment> \<open>\<open>Math.max(a, b)\<close>: NaN if either argument is NaN, else the larger\<close>
  "Math_max a b = (if a = NaN \<or> b = NaN then NaN else if num_less a b then b else a)"

text \<open>Division, with a zero divisor taken as the positive zero.\<close>

fun num_div :: "number \<Rightarrow> number \<Rightarrow> number" where
  "num_div NaN _ = NaN"
| "num_div _ NaN = NaN"
| "num_div (Fin a) (Fin b) =
     (if b = 0 then (if a = 0 then NaN else if 0 < a then PInf else NInf)
      else roundDouble (a / b))"
| "num_div (Fin a) _ = Fin 0"
| "num_div PInf (Fin b) = (if 0 \<le> b then PInf else NInf)"
| "num_div NInf (Fin b) = (if 0 \<le> b then NInf else PInf)"
| "num_div _ _ = NaN"

fun num_le :: "number \<Rightarrow> number \<Rightarrow> bool" where
  "num_le NaN _ = False"
| "num_le _ NaN = False"
| "num_le (Fin a) (Fin b) = (a \<le> b)"
| "num_le NInf _ = True"
| "num_le _ PInf = True"
| "num_le _ _ = False"

fun Math_ceil :: "number \<Rightarrow> number" where
  "Math_ceil (Fin a) = Fin (of_int \<lceil>a\<rceil>)"
| "Math_ceil x = x"

definition num_truthy :: "number \<Rightarrow> bool" where
  \<comment> \<open>a Number is falsy exactly when it is zero or NaN\<close>
  "num_truthy a = (a \<noteq> Fin 0 \<and> a \<noteq> NaN)"

section \<open>Data model (types.ts)\<close>

datatype ServiceType = helper | assembler | packer | other

record ExtraService =
  extra_id :: string
  extra_type :: ServiceType
  extra_name :: string
  qty :: number
  cost :: number

record Financials =
  totalValue :: number
  driverCost :: number
  extras :: "ExtraService list"

record PaymentStatus =
  deposit :: bool
  pickup :: bool
  delivery :: bool

text \<open>
  \<open>ProgressStage = 20 | 60 | 100\<close>; the form additionally produces \<open>0 as any\<close> for an
  order without any payment, so the value 0 is part of the type as the code uses it.
\<close>

datatype ProgressStage = Stage0 | Stage20 | Stage60 | Stage100

fun stageValue :: "ProgressStage \<Rightarrow> nat" where
  "stageValue Stage0 = 0"
| "stageValue Stage20 = 20"
| "stageValue Stage60 = 60"
| "stageValue Stage100 = 100"

record OrderNote =
  note_id :: string
  content :: string
  color :: string
  note_createdAt :: string

text \<open>
  \<open>OrderFields\<close> is \<open>Omit<ServiceOrder, 'id' | 'createdAt'>\<close>, the type of the form's
  \<open>emptyOrder\<close>; a \<open>ServiceOrder\<close> adds the two identity fields.
\<close>

record OrderFields =
  clientName :: string
  whatsapp :: string
  origin :: string
  destination :: string
  isContractSigned :: bool
  isPostedFretebras :: bool
  paymentStatus :: PaymentStatus
  isCostsPaid :: bool
  progress :: ProgressStage
  financials :: Financials
  pickupDate :: string
  deliveryForecast :: string
  order_notes :: "OrderNote list"
  noteTags :: string

record ServiceOrder = OrderFields +
  order_id :: string
  createdAt :: string

datatype TransactionType = income | expense

record Transaction =
  tx_id :: string
  description :: string
  amount :: number
  tx_type :: TransactionType
  date :: string
  category :: "string option"

section \<open>Money rules (types.ts)\<close>

definition calculateCosts :: "Financials \<Rightarrow> number" where
  "calculateCosts f =
     (let extrasTotal = foldl (\<lambda>acc curr. num_add acc (num_mul (cost curr) (qty curr))) (Fin 0) (extras f)
      in num_add (driverCost f) extrasTotal)"

definition calculateProfit :: "Financials \<Rightarrow> number" where
  "calculateProfit f = num_sub (totalValue f) (calculateCosts f)"

definition lit_0_20 :: number where
  \<comment> \<open>the literal \<open>0.20\<close>: the double nearest to one fifth\<close>
  "lit_0_20 = roundDouble (1 / 5)"

definition lit_0_40 :: number where
  \<comment> \<open>the literal \<open>0.40\<close>: the double nearest to two fifths\<close>
  "lit_0_40 = roundDouble (2 / 5)"

definition calculateReceivedAmount :: "'a OrderFields_scheme \<Rightarrow> number" where
  "calculateReceivedAmount order =
     (let received0 = Fin 0;
          total = totalValue (financials order);
          received1 = (if deposit (paymentStatus order)
                       then num_add received0 (num_mul total lit_0_20) else received0);
          received2 = (if pickup (paymentStatus order)
                       then num_add received1 (num_mul total lit_0_40) else received1);
          received3 = (if delivery (paymentStatus order)
                       then num_add received2 (num_mul total lit_0_40) else received2)
      in received3)"

section \<open>Strings and built-ins of the language\<close>

definition startsWith :: "string \<Rightarrow> string \<Rightarrow> bool" where
  "startsWith s p = (take (length p) s = p)"

fun split :: "char \<Rightarrow> string \<Rightarrow> string list" where
  \<comment> \<open>\<open>s.split(c)\<close> for a one-character separator; the empty string gives one empty part\<close>
  "split c [] = [[]]"
| "split c (x # xs) =
     (if x = c then [] # split c xs
      else (case split c xs of p # ps \<Rightarrow> (x # p) # ps | [] \<Rightarrow> [[x]]))"

definition digitChars :: string where
  "digitChars = ''0123456789abcdefghijklmnopqrstuvwxyz''"

definition lowerChar :: "char \<Rightarrow> char" where
  "lowerChar c =
     (if (65::nat) \<le> of_char c \<and> (of_char c :: nat) \<le> 90
      then char_of (of_char c + (32::nat)) else c)"

fun indexOf :: "char \<Rightarrow> string \<Rightarrow> nat option" where
  "indexOf c [] = None"
| "indexOf c (x # xs) = (if x = c then Some 0 else map_option Suc (indexOf c xs))"

definition digitValue :: "nat \<Rightarrow> char \<Rightarrow> nat option" where
  \<comment> \<open>the value of a character as a digit of the given radix, if it is one\<close>
  "digitValue radix c =
     (case indexOf (lowerChar c) digitChars of
        None \<Rightarrow> None
      | Some v \<Rightarrow> if v < radix then Some v else None)"

definition isDigit :: "nat \<Rightarrow> char \<Rightarrow> bool" where
  "isDigit radix c = (digitValue radix c \<noteq> None)"

definition digitsValue :: "nat \<Rightarrow> string \<Rightarrow> int" where
  "digitsValue radix ds =
     foldl (\<lambda>acc c. acc * int radix + (case digitValue radix c of Some v \<Rightarrow> int v | None \<Rightarrow> 0))
           0 ds"

definition isWhiteSpace :: "char \<Rightarrow> bool" where
  \<comment> \<open>tab, line feed, vertical tab, form feed, carriage return, space, no-break space\<close>
  "isWhiteSpace c = ((of_char c :: nat) \<in> {9, 10, 11, 12, 13, 32, 160})"

definition parseInt :: "string \<Rightarrow> int option" where
  \<comment> \<open>\<open>parseInt(s)\<close> without a radix; \<open>None\<close> is NaN.  The result is the integer read;
      JavaScript returns the Number nearest to it, the same value below \<open>2 ^ 53\<close>.\<close>
  "parseInt inputString =
     (let s0 = dropWhile isWhiteSpace inputString;
          sign = (if s0 \<noteq> [] \<and> hd s0 = CHR ''-'' then - 1 else 1 :: int);
          s1 = (if s0 \<noteq> [] \<and> (hd s0 = CHR ''+'' \<or> hd s0 = CHR ''-'') then tl s0 else s0);
          hex = (take 2 s1 = ''0x'' \<or> take 2 s1 = ''0X'');
          radix = (if hex then 16 else 10 :: nat);
          s2 = (if hex then drop 2 s1 else s1);
          z = takeWhile (isDigit radix) s2
      in if z = [] then None else Some (sign * digitsValue radix z))"

function digitsOf :: "int \<Rightarrow> string" where
  \<comment> \<open>the decimal digits of a non-negative integer\<close>
  "digitsOf n =
     (if n < 10 then [digitChars ! nat n]
      else digitsOf (n div 10) @ [digitChars ! nat (n mod 10)])"
  by pat_completeness auto
termination
  by (relation "measure nat") auto

declare digitsOf.simps [simp del]

definition toString :: "int \<Rightarrow> string" where
  \<comment> \<open>\<open>n.toString()\<close> and \<open>String(n)\<close> of an integral Number below \<open>10 ^ 21\<close> in magnitude\<close>
  "toString n = (if n < 0 then CHR ''-'' # digitsOf (- n) else digitsOf n)"

definition padStart :: "nat \<Rightarrow> char \<Rightarrow> string \<Rightarrow> string" where
  "padStart n c s = replicate (n - length s) c @ s"

definition toNumber :: "string \<Rightarrow> int option" where
  \<comment> \<open>\<open>Number(s)\<close> on a string of decimal digits (the empty string is 0); \<open>None\<close> is NaN.
      \<open>Number\<close> also reads white space, signs, fractions, exponents and radix prefixes, which
      the parts of a date \<open>YYYY-MM-DD\<close> never contain; the model gives NaN for those.\<close>
  "toNumber s = (if list_all (isDigit 10) s then Some (digitsValue 10 s) else None)"

section \<open>Dates\<close>

definition msPerDay :: int where
  "msPerDay = 1000 * 60 * 60 * 24"

definition daysFromCivil :: "int \<Rightarrow> int \<Rightarrow> int \<Rightarrow> int" where
  \<comment> \<open>day number, counted from 1970-01-01, of a date of the proleptic Gregorian calendar;
      the month is 1 to 12\<close>
  "daysFromCivil y m d =
     (let y' = (if m \<le> 2 then y - 1 else y);
          era = y' div 400;
          yoe = y' - era * 400;
          doy = (153 * ((m + 9) mod 12) + 2) div 5 + d - 1;
          doe = yoe * 365 + yoe div 4 - yoe div 100 + doy
      in era * 146097 + doe - 719468)"

definition MakeDay :: "int \<Rightarrow> int \<Rightarrow> int \<Rightarrow> int" where
  \<comment> \<open>ECMAScript \<open>MakeDay(year, month, date)\<close>: the month is an index from 0 and may be out
      of range, the date may be out of range too\<close>
  "MakeDay year month dt = daysFromCivil (year + month div 12) (month mod 12 + 1) 1 + dt - 1"

definition TimeClip :: "int \<Rightarrow> int option" where
  "TimeClip t = (if \<bar>t\<bar> \<le> 8640000000000000 then Some t else None)"

text \<open>
  The time zone of the browser is a parameter: \<open>tz t\<close> is the offset of local time from UTC,
  in milliseconds, in force at the local time \<open>t\<close>.
\<close>

type_synonym timezone = "int \<Rightarrow> int"

definition newDate :: "timezone \<Rightarrow> int option \<Rightarrow> int option \<Rightarrow> int option \<Rightarrow> int option" where
  \<comment> \<open>\<open>new Date(year, monthIndex, day).getTime()\<close>: local midnight of that day as a time
      value, NaN (\<open>None\<close>) when an argument is NaN or the result is out of range\<close>
  "newDate tz year monthIndex dy =
     (case (year, monthIndex, dy) of
        (Some y, Some m, Some d) \<Rightarrow>
          (let yr = (if 0 \<le> y \<and> y \<le> 99 then 1900 + y else y);
               t = MakeDay yr m d * msPerDay
           in TimeClip (t - tz t))
      | _ \<Rightarrow> None)"



section \<open>Dashboard (App.tsx)\<close>

text \<open>
  \<open>new Date()\<close> is read through \<open>getFullYear()\<close>, \<open>getMonth()\<close> and \<open>getDate()\<close> only: the
  local calendar date of the moment of the call.
\<close>

record Today =
  fullYear :: int
  monthIndex :: int
  dayOfMonth :: int

definition timeValue :: "int option \<Rightarrow> number" where
  \<comment> \<open>a time value as a Number: an integer below \<open>2 ^ 53\<close> in magnitude, or NaN\<close>
  "timeValue t = (case t of Some v \<Rightarrow> Fin (rat_of_int v) | None \<Rightarrow> NaN)"

definition diffDays :: "timezone \<Rightarrow> Today \<Rightarrow> string \<Rightarrow> number" where
  \<comment> \<open>the \<open>diffDays\<close> of \<open>isOrderCritical\<close>\<close>
  "diffDays tz now pd =
     (let nowMidnight = timeValue
            (newDate tz (Some (fullYear now)) (Some (monthIndex now)) (Some (dayOfMonth now)));
          parts = map toNumber (split CHR ''-'' pd);
          year = (if 0 < length parts then parts ! 0 else None);
          month = (if 1 < length parts then parts ! 1 else None);
          dy = (if 2 < length parts then parts ! 2 else None);
          targetDate = timeValue (newDate tz year (map_option (\<lambda>m. m - 1) month) dy)
      in Math_ceil (num_div (num_sub targetDate nowMidnight) (Fin (rat_of_int msPerDay))))"

definition isOrderCritical :: "timezone \<Rightarrow> Today \<Rightarrow> 'a OrderFields_scheme \<Rightarrow> bool" where
  "isOrderCritical tz now order =
     (if stageValue (progress order) = 100 then False
      else num_le (diffDays tz now (pickupDate order)) (Fin 5))"

record UrgentAlert =
  alert_count :: nat
  alert_names :: "string list"
  alert_show :: bool

text \<open>
  The state a pass of \<open>checkCriticalOrders\<close> reads and writes: the \<open>urgentAlert\<close> of the
  component, the entry \<open>lastExpirationAlertTime\<close> of \<open>localStorage\<close> (absent or a string), and
  a count of the calls of \<open>setUrgentAlert\<close> the passes have made.
\<close>

record AlertState =
  urgentAlert :: UrgentAlert
  lastExpirationAlertTime :: "string option"
  alertsRaised :: nat

definition FIVE_HOURS :: int where
  "FIVE_HOURS = 5 * 60 * 60 * 1000"

definition shouldShow :: "string option \<Rightarrow> int \<Rightarrow> bool" where
  \<comment> \<open>\<open>!lastAlertTime || (now - parseInt(lastAlertTime)) > FIVE_HOURS\<close>\<close>
  "shouldShow lastAlertTime now =
     (case lastAlertTime of
        None \<Rightarrow> True
      | Some s \<Rightarrow> s = [] \<or> (case parseInt s of None \<Rightarrow> False | Some t \<Rightarrow> FIVE_HOURS < now - t))"

definition checkCriticalOrders ::
  "timezone \<Rightarrow> Today \<Rightarrow> int \<Rightarrow> ServiceOrder list \<Rightarrow> AlertState \<Rightarrow> AlertState" where
  \<comment> \<open>one pass; \<open>today\<close> is the local date and \<open>now\<close> the value of \<open>Date.now()\<close>\<close>
  "checkCriticalOrders tz today now orders st =
     (let criticalOrders = filter (isOrderCritical tz today) orders
      in if 0 < length criticalOrders then
           (if shouldShow (lastExpirationAlertTime st) now then
              st\<lparr> urgentAlert := \<lparr> alert_count = length criticalOrders,
                                    alert_names = map clientName criticalOrders,
                                    alert_show = True \<rparr>,
                  lastExpirationAlertTime := Some (toString now),
                  alertsRaised := Suc (alertsRaised st) \<rparr>
            else st)
         else st)"

text \<open>A pass as it is scheduled: the local date, the clock and the orders at that moment.\<close>

record Pass =
  pass_today :: Today
  pass_now :: int
  pass_orders :: "ServiceOrder list"

fun runPasses :: "timezone \<Rightarrow> Pass list \<Rightarrow> AlertState \<Rightarrow> AlertState" where
  "runPasses tz [] st = st"
| "runPasses tz (p # ps) st =
     runPasses tz ps (checkCriticalOrders tz (pass_today p) (pass_now p) (pass_orders p) st)"

definition monthKey :: "int \<Rightarrow> int \<Rightarrow> string" where
  \<comment> \<open>the key of \<open>viewDate\<close>, from its \<open>getFullYear()\<close> and \<open>getMonth()\<close>\<close>
  "monthKey year month = toString year @ ''-'' @ padStart 2 CHR ''0'' (toString (month + 1))"

definition monthlyNet :: "ServiceOrder list \<Rightarrow> Transaction list \<Rightarrow> string \<Rightarrow> number" where
  \<comment> \<open>the body of \<open>monthlyRevenue\<close> (and of \<open>revenueViewValue\<close>) for a given key\<close>
  "monthlyNet orders transactions key =
     (let monthOrders = filter (\<lambda>order. startsWith (pickupDate order) key) orders;
          (cashIn1, cashOut1) =
             foldl (\<lambda>(cashIn, cashOut) order.
                      let received = calculateReceivedAmount order
                      in (num_add cashIn received,
                          if isCostsPaid order
                          then num_add cashOut (calculateCosts (financials order)) else cashOut))
                   (Fin 0, Fin 0) monthOrders;
          monthTransactions = filter (\<lambda>t. startsWith (date t) key) transactions;
          (cashIn2, cashOut2) =
             foldl (\<lambda>(cashIn, cashOut) t.
                      (if tx_type t = income then num_add cashIn (amount t) else cashIn,
                       if tx_type t = expense then num_add cashOut (amount t) else cashOut))
                   (cashIn1, cashOut1) monthTransactions
      in num_sub cashIn2 cashOut2)"

definition monthlyRevenue :: "ServiceOrder list \<Rightarrow> Transaction list \<Rightarrow> int \<Rightarrow> int \<Rightarrow> number" where
  "monthlyRevenue orders transactions viewYear viewMonth =
     monthlyNet orders transactions (monthKey viewYear viewMonth)"

record Counts =
  count_all :: nat
  count_active :: nat
  count_completed :: nat
  count_critical :: nat

definition counts :: "timezone \<Rightarrow> Today \<Rightarrow> ServiceOrder list \<Rightarrow> Counts" where
  "counts tz now orders =
     \<lparr> count_all = length orders,
       count_active = length (filter (\<lambda>order. stageValue (progress order) < 100) orders),
       count_completed = length (filter (\<lambda>order. stageValue (progress order) = 100) orders),
       count_critical = length (filter (isOrderCritical tz now) orders) \<rparr>"







section \<open>Order form (components/OrderForm.tsx)\<close>

definition emptyOrder :: OrderFields where
  "emptyOrder =
     \<lparr> clientName = [], whatsapp = [], origin = [], destination = [],
       isContractSigned = False, isPostedFretebras = False,
       paymentStatus = \<lparr> deposit = False, pickup = False, delivery = False \<rparr>,
       isCostsPaid = False,
       progress = Stage20,
       financials = \<lparr> totalValue = Fin 0, driverCost = Fin 0, extras = [] \<rparr>,
       pickupDate = [], deliveryForecast = [],
       order_notes = [], noteTags = ''#334155'' \<rparr>"

text \<open>
  \<open>formData\<close> holds either \<open>emptyOrder\<close>, which has no \<open>id\<close> and no \<open>createdAt\<close>, or the
  order being edited, which has both.
\<close>

record FormData = OrderFields +
  form_id :: "string option"
  form_createdAt :: "string option"

record FormState =
  formData :: FormData
  form_extras :: "ExtraService list"

definition initForm :: "ServiceOrder option \<Rightarrow> FormState" where
  \<comment> \<open>the effect that initialises the form state from \<open>initialData\<close>\<close>
  "initForm initialData =
     (case initialData of
        Some d \<Rightarrow>
          \<lparr> formData = OrderFields.extend (OrderFields.truncate d)
                         (FormData.fields (Some (order_id d)) (Some (createdAt d))),
            form_extras = extras (financials d) \<rparr>
      | None \<Rightarrow>
          \<lparr> formData = OrderFields.extend emptyOrder (FormData.fields None None),
            form_extras = [] \<rparr>)"

definition calculateProgress :: "PaymentStatus \<Rightarrow> ProgressStage" where
  "calculateProgress ps =
     (if delivery ps then Stage100
      else if pickup ps then Stage60
      else if deposit ps then Stage20
      else Stage0)"

definition progressEffect :: "FormData \<Rightarrow> FormData" where
  \<comment> \<open>the body of the progress effect, which runs when \<open>formData.paymentStatus\<close> is replaced\<close>
  "progressEffect fd =
     (let newProgress = calculateProgress (paymentStatus fd)
      in if progress fd \<noteq> newProgress then fd\<lparr> progress := newProgress \<rparr> else fd)"

datatype StageKey = DepositKey | PickupKey | DeliveryKey

fun setStage :: "StageKey \<Rightarrow> bool \<Rightarrow> PaymentStatus \<Rightarrow> PaymentStatus" where
  "setStage DepositKey v ps = ps\<lparr> deposit := v \<rparr>"
| "setStage PickupKey v ps = ps\<lparr> pickup := v \<rparr>"
| "setStage DeliveryKey v ps = ps\<lparr> delivery := v \<rparr>"

definition onPaymentChange :: "StageKey \<Rightarrow> bool \<Rightarrow> FormState \<Rightarrow> FormState" where
  \<comment> \<open>a payment checkbox changes: \<open>formData\<close> gets a new \<open>paymentStatus\<close> object, so the
      progress effect runs on the new state\<close>
  "onPaymentChange key checked st =
     st\<lparr> formData :=
           progressEffect
             ((formData st)\<lparr> paymentStatus := setStage key checked (paymentStatus (formData st)) \<rparr>) \<rparr>"

text \<open>
  The form component is mounted once and stays mounted; the dashboard only changes its props
  \<open>isOpen\<close> and \<open>initialData\<close>.  An effect runs after a render when one of its dependencies
  is not the same as at the previous render, and objects are the same only when they are one
  object.  So the model gives every object that occurs in a dependency list a reference: the
  order handed over as \<open>initialData\<close>, and the \<open>paymentStatus\<close> object of \<open>formData\<close>.
  \<open>emptyOrder\<close> is one constant of the module, hence its \<open>paymentStatus\<close> is one object.
\<close>

type_synonym ref = nat

definition emptyOrderStatusRef :: ref where
  \<comment> \<open>the \<open>paymentStatus\<close> object of \<open>emptyOrder\<close>\<close>
  "emptyOrderStatusRef = 0"

record OrderObject =
  obj_ref :: ref
  obj_statusRef :: ref
  obj_order :: ServiceOrder

record OrderFormProps =
  isOpen :: bool
  initialData :: "OrderObject option"

text \<open>
  The state of the mounted component: the two \<open>useState\<close> cells, the reference of
  \<open>formData.paymentStatus\<close>, and the dependencies each effect saw at the previous render
  (none before the first render).
\<close>

record OrderFormComponent =
  form_state :: FormState
  statusRef :: ref
  initDeps :: "(ref option \<times> bool) option"
  progressDeps :: "ref option"

definition commit :: "OrderFormProps \<Rightarrow> OrderFormComponent \<Rightarrow> OrderFormComponent" where
  \<comment> \<open>one render and the effects after it.  The initialising effect depends on
      \<open>[initialData, isOpen]\<close> and replaces the state; the progress effect depends on
      \<open>[formData.paymentStatus]\<close>, reads the \<open>formData\<close> of this render and, when the stored
      progress differs, queues \<open>prev \<Rightarrow> {...prev, progress: newProgress}\<close>, which is applied
      after the replacement and keeps the \<open>paymentStatus\<close> object of \<open>prev\<close>\<close>
  "commit props c =
     (let initNow = (map_option obj_ref (initialData props), isOpen props);
          progressNow = statusRef c;
          fd = formData (form_state c);
          (st1, ref1) =
            (if initDeps c \<noteq> Some initNow
             then (initForm (map_option obj_order (initialData props)),
                   case initialData props of
                     Some d \<Rightarrow> obj_statusRef d
                   | None \<Rightarrow> emptyOrderStatusRef)
             else (form_state c, statusRef c));
          newProgress = calculateProgress (paymentStatus fd);
          st2 =
            (if progressDeps c \<noteq> Some progressNow \<and> progress fd \<noteq> newProgress
             then st1\<lparr> formData := (formData st1)\<lparr> progress := newProgress \<rparr> \<rparr>
             else st1)
      in \<lparr> form_state = st2, statusRef = ref1,
           initDeps = Some initNow, progressDeps = Some progressNow \<rparr>)"

fun rerender :: "nat \<Rightarrow> OrderFormProps \<Rightarrow> OrderFormComponent \<Rightarrow> OrderFormComponent option" where
  \<comment> \<open>render again as long as a render changes something; the first argument bounds the
      number of renders\<close>
  "rerender 0 props c = None"
| "rerender (Suc n) props c =
     (let c' = commit props c in if c' = c then Some c else rerender n props c')"

definition initialComponent :: OrderFormComponent where
  \<comment> \<open>\<open>useState(emptyOrder)\<close> and \<open>useState([])\<close>, before the first render\<close>
  "initialComponent =
     \<lparr> form_state = \<lparr> formData = OrderFields.extend emptyOrder (FormData.fields None None),
                       form_extras = [] \<rparr>,
       statusRef = emptyOrderStatusRef, initDeps = None, progressDeps = None \<rparr>"

text \<open>
  What the dashboard (App.tsx) does to the props of the form: \<open>openNew\<close>, \<open>openEdit\<close>,
  \<open>onClose\<close> (the close button and the backdrop), and \<open>triggerSaveSuccess\<close> after a create
  or an update (a confirmed delete sets the same two values).  None of them is an edit of
  the draft.
\<close>

datatype FormEvent = OpenNew | OpenEdit OrderObject | CloseForm | SaveSuccess

fun appEvent :: "FormEvent \<Rightarrow> OrderFormProps \<Rightarrow> OrderFormProps" where
  "appEvent OpenNew p = p\<lparr> initialData := None, isOpen := True \<rparr>"
| "appEvent (OpenEdit d) p = p\<lparr> initialData := Some d, isOpen := True \<rparr>"
| "appEvent CloseForm p = p\<lparr> isOpen := False \<rparr>"
| "appEvent SaveSuccess p = p\<lparr> isOpen := False, initialData := None \<rparr>"

fun runEvents ::
  "nat \<Rightarrow> FormEvent list \<Rightarrow> OrderFormProps \<times> OrderFormComponent
     \<Rightarrow> (OrderFormProps \<times> OrderFormComponent) option" where
  "runEvents fuel [] s = Some s"
| "runEvents fuel (e # es) (p, c) =
     (case rerender fuel (appEvent e p) c of
        None \<Rightarrow> None
      | Some c' \<Rightarrow> runEvents fuel es (appEvent e p, c'))"

definition mountApp :: "nat \<Rightarrow> (OrderFormProps \<times> OrderFormComponent) option" where
  \<comment> \<open>the dashboard starts with \<open>isFormOpen = false\<close> and \<open>editingOrder = null\<close>\<close>
  "mountApp fuel =
     (let p = \<lparr> isOpen = False, initialData = None \<rparr>
      in map_option (Pair p) (rerender fuel p initialComponent))"

definition session :: "nat \<Rightarrow> FormEvent list \<Rightarrow> (OrderFormProps \<times> OrderFormComponent) option" where
  \<comment> \<open>the props and the component after the page has loaded and the events have happened\<close>
  "session fuel es = (case mountApp fuel of None \<Rightarrow> None | Some s \<Rightarrow> runEvents fuel es s)"

record RoleConfig =
  role_type :: ServiceType
  role_label :: string
  defaultCost :: number

definition ROLE_CONFIGS :: "RoleConfig list" where
  "ROLE_CONFIGS =
     [\<lparr> role_type = helper, role_label = ''Ajudantes'', defaultCost = Fin 0 \<rparr>,
      \<lparr> role_type = assembler, role_label = ''Montadores'', defaultCost = Fin 0 \<rparr>,
      \<lparr> role_type = packer, role_label = ''Embaladores'', defaultCost = Fin 0 \<rparr>]"

fun serviceTypeString :: "ServiceType \<Rightarrow> string" where
  "serviceTypeString helper = ''helper''"
| "serviceTypeString assembler = ''assembler''"
| "serviceTypeString packer = ''packer''"
| "serviceTypeString other = ''other''"

definition getRoleData :: "ExtraService list \<Rightarrow> ServiceType \<Rightarrow> number \<times> number" where
  \<comment> \<open>\<open>(totalQty, unitCost)\<close>\<close>
  "getRoleData xs ty =
     (let items = filter (\<lambda>e. extra_type e = ty) xs;
          totalQty = foldl (\<lambda>acc curr. num_add acc (qty curr)) (Fin 0) items;
          unitCost =
            (if 0 < length items then cost (items ! 0)
             else (case find (\<lambda>r. role_type r = ty) ROLE_CONFIGS of
                     Some r \<Rightarrow> if num_truthy (defaultCost r) then defaultCost r else Fin 0
                   | None \<Rightarrow> Fin 0))
      in (totalQty, unitCost))"

datatype RoleField = QtyField | CostField

definition updateRole ::
  "int \<Rightarrow> ServiceType \<Rightarrow> RoleField \<Rightarrow> number \<Rightarrow> ExtraService list \<Rightarrow> ExtraService list" where
  \<comment> \<open>the new value of \<open>extras\<close>; \<open>now\<close> is the value of \<open>Date.now()\<close>\<close>
  "updateRole now ty field v xs =
     (let safeValue = Math_max (Fin 0) v;
          config = find (\<lambda>c. role_type c = ty) ROLE_CONFIGS;
          otherExtras = filter (\<lambda>e. extra_type e \<noteq> ty) xs;
          currentData = getRoleData xs ty;
          newQty = (if field = QtyField then safeValue else fst currentData);
          newCost = (if field = CostField then safeValue else snd currentData)
      in if num_gt newQty (Fin 0) \<or> num_gt newCost (Fin 0) then
           (let newEntry =
                  \<lparr> extra_id = ''auto-'' @ serviceTypeString ty @ ''-'' @ toString now,
                    extra_type = ty,
                    extra_name = (case config of
                                    Some c \<Rightarrow> if role_label c \<noteq> [] then role_label c
                                              else serviceTypeString ty
                                  | None \<Rightarrow> serviceTypeString ty),
                    qty = newQty,
                    cost = newCost \<rparr>
            in otherExtras @ [newEntry])
         else otherExtras)"

definition onUpdateRole ::
  "int \<Rightarrow> ServiceType \<Rightarrow> RoleField \<Rightarrow> number \<Rightarrow> FormState \<Rightarrow> FormState" where
  "onUpdateRole now ty field v st = st\<lparr> form_extras := updateRole now ty field v (form_extras st) \<rparr>"

text \<open>
  What \<open>handleSubmit\<close> reads from its environment: \<open>new Date().getFullYear()\<close>,
  \<open>Math.floor(Math.random() * 1000)\<close> and \<open>new Date().toISOString()\<close>.
\<close>

record SubmitEnv =
  env_year :: int
  env_random :: int
  env_isoNow :: string

definition finalOrder :: "SubmitEnv \<Rightarrow> FormState \<Rightarrow> ServiceOrder" where
  "finalOrder env st =
     (let fd = formData st;
          newId = (case form_id fd of
                     Some i \<Rightarrow> if i \<noteq> [] then i
                               else ''OS-'' @ toString (env_year env) @ ''-'' @ toString (env_random env)
                   | None \<Rightarrow> ''OS-'' @ toString (env_year env) @ ''-'' @ toString (env_random env));
          newCreatedAt = (case form_createdAt fd of
                            Some c \<Rightarrow> if c \<noteq> [] then c else env_isoNow env
                          | None \<Rightarrow> env_isoNow env)
      in OrderFields.extend
           (OrderFields.truncate (fd\<lparr> financials := (financials fd)\<lparr> extras := form_extras st \<rparr> \<rparr>))
           (ServiceOrder.fields newId newCreatedAt))"

text \<open>
  The calls of the persistence gateway (utils/supabaseService.ts) a handler makes, in order.
\<close>

datatype GatewayCall = CreateServiceOrder ServiceOrder | UpdateServiceOrder ServiceOrder

definition handleCreate :: "ServiceOrder \<Rightarrow> GatewayCall list" where
  "handleCreate newOrder = [CreateServiceOrder newOrder]"

definition handleUpdate :: "ServiceOrder \<Rightarrow> GatewayCall list" where
  "handleUpdate updatedOrder = [UpdateServiceOrder updatedOrder]"

definition handleSubmit :: "ServiceOrder option \<Rightarrow> SubmitEnv \<Rightarrow> FormState \<Rightarrow> GatewayCall list" where
  \<comment> \<open>the click handler of the save button; \<open>onSubmit\<close> is \<open>handleUpdate\<close> when an order is
      being edited and \<open>handleCreate\<close> otherwise\<close>
  "handleSubmit editingOrder env st =
     (let onSubmit = (if editingOrder \<noteq> None then handleUpdate else handleCreate)
      in onSubmit (finalOrder env st))"

section \<open>The monthly figure as the specification words it\<close>

definition numSum :: "number list \<Rightarrow> number" where
  \<comment> \<open>a sum of Numbers, accumulated from 0 in list order\<close>
  "numSum xs = foldl num_add (Fin 0) xs"

definition spec_cashIn :: "ServiceOrder list \<Rightarrow> Transaction list \<Rightarrow> string \<Rightarrow> number" where
  "spec_cashIn orders transactions key =
     numSum (map calculateReceivedAmount (filter (\<lambda>order. startsWith (pickupDate order) key) orders)
             @ map amount (filter (\<lambda>t. tx_type t = income)
                             (filter (\<lambda>t. startsWith (date t) key) transactions)))"

definition spec_cashOut :: "ServiceOrder list \<Rightarrow> Transaction list \<Rightarrow> string \<Rightarrow> number" where
  "spec_cashOut orders transactions key =
     numSum (map (\<lambda>order. calculateCosts (financials order))
               (filter isCostsPaid (filter (\<lambda>order. startsWith (pickupDate order) key) orders))
             @ map amount (filter (\<lambda>t. tx_type t = expense)
                             (filter (\<lambda>t. startsWith (date t) key) transactions)))"

section \<open>Auxiliary notions for the properties\<close>

text \<open>The characters \<open>digitsOf\<close> produces: decimal digits, none of which \<open>parseInt\<close> skips or
  reads as a sign or as a radix mark.\<close>

definition plainDigit :: "char \<Rightarrow> bool" where
  "plainDigit ch = (isDigit 10 ch \<and> \<not> isWhiteSpace ch
      \<and> ch \<noteq> CHR ''+'' \<and> ch \<noteq> CHR ''-'' \<and> ch \<noteq> CHR ''x'' \<and> ch \<noteq> CHR ''X'')"

text \<open>The \<open>newQty\<close> and \<open>newCost\<close> of \<open>updateRole\<close>.\<close>

definition newRoleQty :: "ServiceType \<Rightarrow> RoleField \<Rightarrow> number \<Rightarrow> ExtraService list \<Rightarrow> number" where
  "newRoleQty ty field v xs =
     (if field = QtyField then Math_max (Fin 0) v else fst (getRoleData xs ty))"

definition newRoleCost :: "ServiceType \<Rightarrow> RoleField \<Rightarrow> number \<Rightarrow> ExtraService list \<Rightarrow> number" where
  "newRoleCost ty field v xs =
     (if field = CostField then Math_max (Fin 0) v else snd (getRoleData xs ty))"

text \<open>
  The values of \<open>number\<close> a JavaScript Number can hold: a finite one is a double.
\<close>

definition isDouble :: "number \<Rightarrow> bool" where
  "isDouble x = (case x of Fin q \<Rightarrow> roundDouble q = Fin q | _ \<Rightarrow> True)"

text \<open>
  The entry of a role with a given quantity and cost, written at the time \<open>now\<close>; the total
  quantity of a list of entries, summed from 0 in list order; and the cost of its first
  entry, 0 when there is none.
\<close>

definition roleEntry :: "int \<Rightarrow> ServiceType \<Rightarrow> number \<Rightarrow> number \<Rightarrow> ExtraService" where
  "roleEntry now ty q c =
     \<lparr> extra_id = ''auto-'' @ serviceTypeString ty @ ''-'' @ toString now,
       extra_type = ty,
       extra_name = (case ty of helper \<Rightarrow> ''Ajudantes'' | assembler \<Rightarrow> ''Montadores''
                     | packer \<Rightarrow> ''Embaladores'' | other \<Rightarrow> ''other''),
       qty = q, cost = c \<rparr>"

definition qtySum :: "ExtraService list \<Rightarrow> number" where
  "qtySum items = foldl (\<lambda>acc e. num_add acc (qty e)) (Fin 0) items"

definition firstCost :: "ExtraService list \<Rightarrow> number" where
  "firstCost items = (case items of [] \<Rightarrow> Fin 0 | e # _ \<Rightarrow> cost e)"


text \<open>An order as the scenarios below use it: only the client name, the pickup date and the
  progress stage vary.\<close>

definition scenarioOrder :: "string \<Rightarrow> string \<Rightarrow> ProgressStage \<Rightarrow> ServiceOrder" where
  "scenarioOrder name pd stage =
     \<lparr> clientName = name, whatsapp = [], origin = [], destination = [],
       isContractSigned = True, isPostedFretebras = False,
       paymentStatus = \<lparr> deposit = stage \<noteq> Stage0, pickup = False, delivery = False \<rparr>,
       isCostsPaid = False, progress = stage,
       financials = \<lparr> totalValue = Fin 1000, driverCost = Fin 200, extras = [] \<rparr>,
       pickupDate = pd, deliveryForecast = [], order_notes = [],
       noteTags = ''#334155'', order_id = ''OS-2024-'' @ name, createdAt = [] \<rparr>"

section \<open>Progress stage and status counts\<close>

lemma stageValue_le_100: "stageValue p \<le> 100"
  by (cases p) simp_all

lemma length_filter_partition:
  "length (filter P xs) + length (filter (\<lambda>x. \<not> P x) xs) = length xs"
  by (induction xs) simp_all

text \<open>
  C2.  The progress derived from the three payment flags is 100 if delivery is paid, else 60
  if pickup is paid, else 20 if the deposit is paid, else 0, for every combination of the
  flags.  A write to a payment flag stores the new flags and makes the progress of the draft
  the derived one, whatever was stored before.  Deposit and delivery paid without pickup
  gives 100.
\<close>

theorem progress_derivation:
  "stageValue (calculateProgress ps) =
     (if delivery ps then 100 else if pickup ps then 60 else if deposit ps then 20 else 0)
   \<and> paymentStatus (formData (onPaymentChange key checked st)) =
       setStage key checked (paymentStatus (formData st))
   \<and> progress (formData (onPaymentChange key checked st)) =
       calculateProgress (setStage key checked (paymentStatus (formData st)))
   \<and> calculateProgress \<lparr> deposit = True, pickup = False, delivery = True \<rparr> = Stage100"
  by (simp add: calculateProgress_def onPaymentChange_def progressEffect_def Let_def)

theorem progress_derivation_witness:
  "stageValue (calculateProgress \<lparr> deposit = True, pickup = False, delivery = True \<rparr>) = 100
   \<and> progress (formData (onPaymentChange PickupKey True (initForm None))) = Stage60"
  using progress_derivation [of "\<lparr> deposit = True, pickup = False, delivery = True \<rparr>"
      PickupKey True "initForm None"]
  by (simp add: initForm_def emptyOrder_def OrderFields.defs FormData.defs calculateProgress_def)

text \<open>
  The initialising effect seeds the draft of a new order with \<open>emptyOrder\<close> and no extras: the
  contract, marketplace and costs-paid flags and the three payment flags are false, and the
  stored progress is 20.  The progress derived from these payment flags is 0, and that is
  what the progress effect writes when it runs on this draft.
\<close>

lemma initForm_new_order:
  "formData (initForm None) = OrderFields.extend emptyOrder (FormData.fields None None)
   \<and> form_extras (initForm None) = []
   \<and> \<not> isContractSigned (formData (initForm None))
   \<and> \<not> isPostedFretebras (formData (initForm None))
   \<and> \<not> isCostsPaid (formData (initForm None))
   \<and> \<not> deposit (paymentStatus (formData (initForm None)))
   \<and> \<not> pickup (paymentStatus (formData (initForm None)))
   \<and> \<not> delivery (paymentStatus (formData (initForm None)))
   \<and> progress (formData (initForm None)) = Stage20
   \<and> calculateProgress (paymentStatus (formData (initForm None))) = Stage0
   \<and> progress (progressEffect (formData (initForm None))) = Stage0"
  by (simp add: initForm_def emptyOrder_def OrderFields.defs FormData.defs calculateProgress_def
      progressEffect_def)

text \<open>
  Rendering settles: the first render after a change of the props may run both effects, the
  second one the progress effect only, and the third one changes nothing.  So three renders
  are always enough, and every sequence of events leads to a state.
\<close>

lemma commit_twice_stable:
  "commit props (commit props (commit props c)) = commit props (commit props c)"
  by (simp add: commit_def Let_def split: prod.splits)

lemma rerender_settles:
  "rerender (Suc (Suc (Suc n))) props c = Some (commit props (commit props c))"
  using commit_twice_stable [of props c]
  by (auto simp: Let_def)

lemma session_total:
  "session (Suc (Suc (Suc n))) es \<noteq> None"
proof -
  have run: "runEvents (Suc (Suc (Suc n))) es s \<noteq> None" for s
  proof (induction es arbitrary: s)
    case Nil
    show ?case by simp
  next
    case (Cons e es)
    obtain p c where s: "s = (p, c)" by (cases s)
    show ?case
      unfolding s using Cons.IH by (simp add: rerender_settles del: rerender.simps)
  qed
  show ?thesis
    unfolding session_def mountApp_def Let_def
    by (simp only: rerender_settles option.map option.case run not_False_eq_True)
qed

text \<open>
  After an order has been opened for editing and the form has been closed without saving,
  the draft of a new order comes up with progress 0: the initialising effect puts
  \<open>emptyOrder\<close> in place, its \<open>paymentStatus\<close> is another object than that of the order shown
  before, so the progress effect runs and replaces the 20.  This needs only that the
  \<open>paymentStatus\<close> of the edited order is not the one object of \<open>emptyOrder\<close>, as for every
  order fetched from the backend.
\<close>

lemma draft_after_closed_edit:
  assumes "obj_statusRef d \<noteq> emptyOrderStatusRef"
  shows "map_option (\<lambda>(p, c). (isOpen p, initialData p, form_state c))
           (session (Suc (Suc (Suc n))) [OpenEdit d, CloseForm, OpenNew])
         = Some (True, None,
             \<lparr> formData = OrderFields.extend (emptyOrder\<lparr> progress := Stage0 \<rparr>)
                            (FormData.fields None None),
               form_extras = [] \<rparr>)"
  using assms
  unfolding session_def mountApp_def Let_def runEvents.simps rerender_settles
  by (simp add: commit_def initialComponent_def initForm_def emptyOrder_def calculateProgress_def
      emptyOrderStatusRef_def OrderFields.defs FormData.defs Let_def)

text \<open>
  C8.  The draft of a new order does not always have progress 20 before any user edit.  The
  user opens an order for editing, closes the form with the close button and clicks on new
  order: the draft that comes up has all status and payment flags false, as \<open>emptyOrder\<close>
  has them, but progress 0, not the 20 of \<open>emptyOrder\<close>.  When new order is the first thing
  clicked after the page has loaded, the draft is \<open>emptyOrder\<close> itself, with progress 20.
\<close>

theorem new_order_draft_progress_overwritten:
  "map_option (\<lambda>(p, c). (isOpen p, initialData p, form_state c))
     (session 3
        [OpenEdit \<lparr> obj_ref = 1, obj_statusRef = 2,
                    obj_order = scenarioOrder ''A'' ''2024-06-12'' Stage20 \<rparr>,
         CloseForm, OpenNew])
     = Some (True, None,
         \<lparr> formData = OrderFields.extend (emptyOrder\<lparr> progress := Stage0 \<rparr>)
                        (FormData.fields None None),
           form_extras = [] \<rparr>)
   \<and> stageValue Stage0 = 0
   \<and> map_option (\<lambda>(p, c). (isOpen p, initialData p, form_state c)) (session 3 [OpenNew])
     = Some (True, None,
         \<lparr> formData = OrderFields.extend emptyOrder (FormData.fields None None),
           form_extras = [] \<rparr>)
   \<and> stageValue (progress emptyOrder) = 20"
  by code_simp

text \<open>
  Every order of a list is in exactly one of the two lists that the active count and the
  completed count measure.
\<close>

lemma count_list_filter_partition:
  "count_list (filter P xs) x + count_list (filter (\<lambda>y. \<not> P y) xs) x = count_list xs x"
  by (induction xs) auto

text \<open>
  C10.  For every list of orders, the count of all orders is the length of the list, the
  active count is the number of orders with progress below 100 and the completed count the
  number of orders with progress 100; the two add up to the length of the list, and every
  order occurs in the two selections together exactly as often as in the list, since
  progress below 100 and progress 100 exclude each other and one of them holds.  The
  critical count is the number of critical orders, a selection of its own that overlaps the
  other two.
\<close>

theorem counts_partition:
  "count_all (counts tz now orders) = length orders
   \<and> count_active (counts tz now orders)
       = length (filter (\<lambda>order. stageValue (progress order) < 100) orders)
   \<and> count_completed (counts tz now orders)
       = length (filter (\<lambda>order. stageValue (progress order) = 100) orders)
   \<and> count_active (counts tz now orders) + count_completed (counts tz now orders) = length orders
   \<and> (\<forall>x. count_list (filter (\<lambda>order. stageValue (progress order) < 100) orders) x
          + count_list (filter (\<lambda>order. stageValue (progress order) = 100) orders) x
          = count_list orders x)
   \<and> (\<forall>order :: ServiceOrder.
         (stageValue (progress order) < 100) = (stageValue (progress order) \<noteq> 100))
   \<and> count_critical (counts tz now orders) = length (filter (isOrderCritical tz now) orders)
   \<and> count_critical (counts tz now orders) \<le> count_all (counts tz now orders)"
proof -
  have neq: "\<And>p. (stageValue p \<noteq> 100) = (stageValue p < 100)"
    using stageValue_le_100 by (simp add: order_less_le)
  have compl: "(\<lambda>order::ServiceOrder. \<not> stageValue (progress order) < 100)
                 = (\<lambda>order. stageValue (progress order) = 100)"
    using neq by auto
  have len: "length (filter (\<lambda>order. stageValue (progress order) < 100) orders)
        + length (filter (\<lambda>order. stageValue (progress order) = 100) orders) = length orders"
    using length_filter_partition [of "\<lambda>order. stageValue (progress order) < 100" orders]
    by (simp only: compl)
  have cnt: "count_list (filter (\<lambda>order. stageValue (progress order) < 100) orders) x
          + count_list (filter (\<lambda>order. stageValue (progress order) = 100) orders) x
          = count_list orders x" for x
    using count_list_filter_partition [of "\<lambda>order. stageValue (progress order) < 100" orders x]
    by (simp only: compl)
  show ?thesis
    using len cnt neq by (simp add: counts_def)
qed

text \<open>Four orders: three active ones, one completed one, two critical ones.\<close>

lemma counts_example:
  "counts (\<lambda>_. - 10800000) \<lparr> fullYear = 2024, monthIndex = 5, dayOfMonth = 10 \<rparr>
     [scenarioOrder ''A'' ''2024-06-12'' Stage20, scenarioOrder ''B'' ''2024-06-30'' Stage100,
      scenarioOrder ''C'' ''2024-07-01'' Stage0, scenarioOrder ''D'' ''2024-06-01'' Stage60]
   = \<lparr> count_all = 4, count_active = 3, count_completed = 1, count_critical = 2 \<rparr>"
  by code_simp

section \<open>Submission\<close>

text \<open>
  The save button calls \<open>handleSubmit\<close> directly, and \<open>handleSubmit\<close> checks nothing: for
  every draft it builds the final order and hands it to the gateway call, with the client
  name of the draft as it is.
\<close>

lemma handleSubmit_always_calls_gateway:
  "handleSubmit editingOrder env st =
     [if editingOrder \<noteq> None then UpdateServiceOrder (finalOrder env st)
      else CreateServiceOrder (finalOrder env st)]
   \<and> clientName (finalOrder env st) = clientName (formData st)"
  by (simp add: handleSubmit_def handleCreate_def handleUpdate_def finalOrder_def Let_def
      OrderFields.defs ServiceOrder.defs)

text \<open>
  C9.  Submitting the fresh draft of a new order, whose client name is empty, is not blocked:
  the gateway is called to create an order with the empty client name.
\<close>

theorem submit_without_client_name_reaches_gateway:
  "handleSubmit None \<lparr> env_year = 2024, env_random = 7, env_isoNow = ''2024-06-10T12:00:00.000Z'' \<rparr>
     (initForm None)
   = [CreateServiceOrder
        \<lparr> clientName = [], whatsapp = [], origin = [], destination = [],
          isContractSigned = False, isPostedFretebras = False,
          paymentStatus = \<lparr> deposit = False, pickup = False, delivery = False \<rparr>,
          isCostsPaid = False, progress = Stage20,
          financials = \<lparr> totalValue = Fin 0, driverCost = Fin 0, extras = [] \<rparr>,
          pickupDate = [], deliveryForecast = [], order_notes = [],
          noteTags = ''#334155'', order_id = ''OS-2024-7'',
          createdAt = ''2024-06-10T12:00:00.000Z'' \<rparr>]"
  by code_simp

section \<open>Monthly aggregation\<close>

lemma foldl_pair_split:
  "foldl (\<lambda>(a, b) x. (f a x, g b x)) (a0, b0) xs = (foldl f a0 xs, foldl g b0 xs)"
  by (induction xs arbitrary: a0 b0) simp_all

lemma foldl_add_map:
  "foldl (\<lambda>acc x. num_add acc (h x)) a xs = foldl num_add a (map h xs)"
  by (induction xs arbitrary: a) simp_all

lemma foldl_add_if:
  "foldl (\<lambda>acc x. if P x then num_add acc (h x) else acc) a xs
     = foldl num_add a (map h (filter P xs))"
  by (induction xs arbitrary: a) simp_all

lemma orders_loop:
  "foldl (\<lambda>(cashIn, cashOut) order.
            let received = calculateReceivedAmount order
            in (num_add cashIn received,
                if isCostsPaid order
                then num_add cashOut (calculateCosts (financials order)) else cashOut))
      (a, b) mo
   = (foldl num_add a (map calculateReceivedAmount mo),
      foldl num_add b
        (map (\<lambda>order. calculateCosts (financials order)) (filter isCostsPaid mo)))"
  unfolding Let_def
  by (simp only: foldl_pair_split foldl_add_map [of calculateReceivedAmount]
      foldl_add_if [of isCostsPaid "\<lambda>order. calculateCosts (financials order)"])

lemma transactions_loop:
  "foldl (\<lambda>(cashIn, cashOut) t.
            (if tx_type t = income then num_add cashIn (amount t) else cashIn,
             if tx_type t = expense then num_add cashOut (amount t) else cashOut))
      (a, b) mt
   = (foldl num_add a (map amount (filter (\<lambda>t. tx_type t = income) mt)),
      foldl num_add b (map amount (filter (\<lambda>t. tx_type t = expense) mt)))"
  by (simp only: foldl_pair_split foldl_add_if)

lemma monthlyNet_eq:
  "monthlyNet orders transactions key =
     num_sub (spec_cashIn orders transactions key) (spec_cashOut orders transactions key)"
  unfolding monthlyNet_def spec_cashIn_def spec_cashOut_def numSum_def
  by (simp only: Let_def orders_loop [unfolded Let_def] transactions_loop prod.case
      foldl_append map_append)

lemma monthlyNet_scenario:
  "monthlyNet
     [\<lparr> clientName = ''Cliente'', whatsapp = [], origin = [], destination = [],
        isContractSigned = True, isPostedFretebras = False,
        paymentStatus = \<lparr> deposit = True, pickup = True, delivery = False \<rparr>,
        isCostsPaid = True, progress = Stage60,
        financials = \<lparr> totalValue = Fin 1000, driverCost = Fin 200, extras = [] \<rparr>,
        pickupDate = ''2024-06-05'', deliveryForecast = [], order_notes = [],
        noteTags = ''#334155'', order_id = ''OS-2024-1'', createdAt = [] \<rparr>]
     [\<lparr> tx_id = ''t1'', description = [], amount = Fin 50, tx_type = expense,
        date = ''2024-06-20'', category = None \<rparr>]
     ''2024-06'' = Fin 350"
  by code_simp

lemma monthKey_june: "monthKey 2024 5 = ''2024-06''"
  by code_simp

text \<open>
  C1.  For every list of orders, every list of transactions and every month key, the monthly
  figure is cash in minus cash out.  Cash in is the sum of \<open>calculateReceivedAmount\<close> over the
  orders whose pickup date starts with the key, followed by the amounts of the income
  transactions whose date starts with the key; cash out is the sum of \<open>calculateCosts\<close> over
  those of the month's orders whose costs are paid, followed by the amounts of the month's
  expense transactions.  The figure shown is the one for the key of the view date.  For one
  order picked up on 2024-06-05 with total 1000, deposit and pickup paid, costs paid, driver
  cost 200 and no extras, and one expense of 50 on 2024-06-20, the figure for 2024-06 is 350.
\<close>

theorem monthly_net_is_cash_in_minus_cash_out:
  "monthlyNet orders transactions key =
     num_sub (spec_cashIn orders transactions key) (spec_cashOut orders transactions key)
   \<and> monthlyRevenue orders transactions viewYear viewMonth =
       monthlyNet orders transactions (monthKey viewYear viewMonth)
   \<and> monthKey 2024 5 = ''2024-06''
   \<and> monthlyNet
       [\<lparr> clientName = ''Cliente'', whatsapp = [], origin = [], destination = [],
          isContractSigned = True, isPostedFretebras = False,
          paymentStatus = \<lparr> deposit = True, pickup = True, delivery = False \<rparr>,
          isCostsPaid = True, progress = Stage60,
          financials = \<lparr> totalValue = Fin 1000, driverCost = Fin 200, extras = [] \<rparr>,
          pickupDate = ''2024-06-05'', deliveryForecast = [], order_notes = [],
          noteTags = ''#334155'', order_id = ''OS-2024-1'', createdAt = [] \<rparr>]
       [\<lparr> tx_id = ''t1'', description = [], amount = Fin 50, tx_type = expense,
          date = ''2024-06-20'', category = None \<rparr>]
       ''2024-06'' = Fin 350"
  using monthlyNet_eq monthlyNet_scenario monthKey_june
  by (simp only: monthlyRevenue_def simp_thms)

section \<open>Rounding of double arithmetic\<close>

lemma pow2_eq: "pow2 e = 2 powi e"
  by (simp add: pow2_def power_int_def inverse_eq_divide power_one_over)

lemma pow2_pos: "0 < pow2 e"
  by (simp add: pow2_eq)

lemma pow2_mono: "a \<le> b \<Longrightarrow> pow2 a \<le> pow2 b"
  by (simp add: pow2_eq power_int_increasing)

lemma pow2_nat: "pow2 (int n) = 2 ^ n"
  by (simp add: pow2_eq)

lemma bitLength_nonneg: "0 \<le> bitLength n"
proof (induction n rule: bitLength.induct)
  case (1 n)
  then show ?case by (cases "n \<le> 0") (simp_all add: bitLength.simps [of n])
qed

lemma bitLength_pos: "0 < n \<Longrightarrow> 0 < bitLength n"
  using bitLength_nonneg [of "n div 2"] by (simp add: bitLength.simps [of n])

lemma bitLength_less: "n < 2 ^ nat (bitLength n)"
proof (induction n rule: bitLength.induct)
  case (1 n)
  show ?case
  proof (cases "n \<le> 0")
    case True
    then show ?thesis by (simp add: bitLength.simps [of n])
  next
    case False
    with 1 have "n div 2 < 2 ^ nat (bitLength (n div 2))" by simp
    then have "n < 2 * 2 ^ nat (bitLength (n div 2))" by linarith
    moreover have "nat (1 + bitLength (n div 2)) = Suc (nat (bitLength (n div 2)))"
      using bitLength_nonneg [of "n div 2"] by simp
    ultimately show ?thesis using False by (simp add: bitLength.simps [of n])
  qed
qed

lemma bitLength_ge: "0 < n \<Longrightarrow> 2 ^ nat (bitLength n - 1) \<le> n"
proof (induction n rule: bitLength.induct)
  case (1 n)
  then have pos: "0 < n" by simp
  have bl: "bitLength n - 1 = bitLength (n div 2)"
    using pos by (simp add: bitLength.simps [of n])
  show ?case
  proof (cases "n div 2 \<le> 0")
    case True
    then have "bitLength (n div 2) = 0" by (simp add: bitLength.simps [of "n div 2"])
    then show ?thesis using pos bl by simp
  next
    case False
    then have half: "0 < n div 2" by simp
    with 1 pos have ih: "2 ^ nat (bitLength (n div 2) - 1) \<le> n div 2" by simp
    have "0 < bitLength (n div 2)" using half by (rule bitLength_pos)
    then have "nat (bitLength (n div 2)) = Suc (nat (bitLength (n div 2) - 1))" by simp
    then have "(2::int) ^ nat (bitLength (n div 2)) = 2 * 2 ^ nat (bitLength (n div 2) - 1)"
      by simp
    with ih have "(2::int) ^ nat (bitLength (n div 2)) \<le> 2 * (n div 2)" by simp
    also have "\<dots> \<le> n" by simp
    finally show ?thesis using bl by simp
  qed
qed

text \<open>\<open>ilog2\<close> is the binary exponent: \<open>2 powi ilog2 q \<le> q < 2 powi (ilog2 q + 1)\<close>.\<close>

lemma ilog2_le:
  assumes "0 < q"
  shows "pow2 (ilog2 q) \<le> q"
proof (cases "1 \<le> q")
  case True
  have fl: "1 \<le> \<lfloor>q\<rfloor>" using True by linarith
  then have npos: "0 < \<lfloor>q\<rfloor>" by simp
  have nonneg: "0 \<le> bitLength \<lfloor>q\<rfloor> - 1" using bitLength_pos [OF npos] by simp
  have "ilog2 q = int (nat (bitLength \<lfloor>q\<rfloor> - 1))"
    using True nonneg by (simp add: ilog2_def)
  then have "pow2 (ilog2 q) = 2 ^ nat (bitLength \<lfloor>q\<rfloor> - 1)"
    by (simp only: pow2_nat)
  also have "\<dots> \<le> rat_of_int \<lfloor>q\<rfloor>"
  proof -
    have "rat_of_int (2 ^ nat (bitLength \<lfloor>q\<rfloor> - 1)) \<le> rat_of_int \<lfloor>q\<rfloor>"
      using bitLength_ge [OF npos] by (simp only: of_int_le_iff)
    then show ?thesis by simp
  qed
  also have "\<dots> \<le> q" by simp
  finally show ?thesis .
next
  case False
  define k where "k = nat (bitLength (\<lceil>1 / q\<rceil> - 1))"
  have "1 < 1 / q" using False assms by (simp add: field_simps)
  then have c: "2 \<le> \<lceil>1 / q\<rceil>" by linarith
  have "\<lceil>1 / q\<rceil> - 1 < 2 ^ k"
    unfolding k_def by (rule bitLength_less)
  then have "\<lceil>1 / q\<rceil> \<le> 2 ^ k" by simp
  then have "rat_of_int \<lceil>1 / q\<rceil> \<le> rat_of_int (2 ^ k)" by (simp only: of_int_le_iff)
  then have "rat_of_int \<lceil>1 / q\<rceil> \<le> 2 ^ k" by simp
  then have "1 / q \<le> 2 ^ k"
    using le_of_int_ceiling [of "1 / q"] by linarith
  then have "1 \<le> 2 ^ k * q"
    using assms by (simp add: pos_divide_le_eq)
  then have "1 / 2 ^ k \<le> q"
    by (simp add: pos_divide_le_eq mult.commute)
  moreover have "ilog2 q = - int k"
    using False bitLength_nonneg [of "\<lceil>1 / q\<rceil> - 1"] by (simp add: ilog2_def k_def)
  then have "pow2 (ilog2 q) = 1 / 2 ^ k"
    by (simp add: pow2_eq power_int_minus inverse_eq_divide)
  ultimately show ?thesis by simp
qed

lemma ilog2_less:
  assumes "0 < q"
  shows "q < pow2 (ilog2 q + 1)"
proof (cases "1 \<le> q")
  case True
  have fl: "1 \<le> \<lfloor>q\<rfloor>" using True by linarith
  then have npos: "0 < \<lfloor>q\<rfloor>" by simp
  have "ilog2 q + 1 = int (nat (bitLength \<lfloor>q\<rfloor>))"
    using True bitLength_nonneg [of "\<lfloor>q\<rfloor>"] by (simp add: ilog2_def)
  then have p: "pow2 (ilog2 q + 1) = 2 ^ nat (bitLength \<lfloor>q\<rfloor>)"
    by (simp only: pow2_nat)
  have "\<lfloor>q\<rfloor> + 1 \<le> 2 ^ nat (bitLength \<lfloor>q\<rfloor>)"
    using bitLength_less [of "\<lfloor>q\<rfloor>"] by simp
  then have "rat_of_int (\<lfloor>q\<rfloor> + 1) \<le> rat_of_int (2 ^ nat (bitLength \<lfloor>q\<rfloor>))"
    by (simp only: of_int_le_iff)
  then have "rat_of_int \<lfloor>q\<rfloor> + 1 \<le> 2 ^ nat (bitLength \<lfloor>q\<rfloor>)" by simp
  moreover have "q < rat_of_int \<lfloor>q\<rfloor> + 1" by linarith
  ultimately show ?thesis using p by simp
next
  case False
  define c where "c = \<lceil>1 / q\<rceil>"
  define k where "k = nat (bitLength (c - 1) - 1)"
  have "1 < 1 / q" using False assms by (simp add: field_simps)
  then have c2: "2 \<le> c" unfolding c_def by linarith
  then have cpos: "0 < c - 1" by simp
  have "2 ^ k \<le> c - 1"
    unfolding k_def by (rule bitLength_ge [OF cpos])
  then have "rat_of_int (2 ^ k) \<le> rat_of_int (c - 1)" by (simp only: of_int_le_iff)
  then have "2 ^ k \<le> rat_of_int c - 1" by simp
  moreover have "rat_of_int c - 1 < 1 / q" unfolding c_def by linarith
  ultimately have "2 ^ k < 1 / q" by simp
  then have "2 ^ k * q < 1" using assms by (simp add: pos_less_divide_eq)
  then have lt: "q < 1 / 2 ^ k" by (simp add: pos_less_divide_eq mult.commute)
  have "ilog2 q + 1 = - int k"
    using False bitLength_pos [OF cpos] by (simp add: ilog2_def k_def c_def)
  then have "pow2 (ilog2 q + 1) = 1 / 2 ^ k"
    by (simp add: pow2_eq power_int_minus inverse_eq_divide)
  with lt show ?thesis by simp
qed

lemma roundHalfEven_close: "\<bar>rat_of_int (roundHalfEven x) - x\<bar> \<le> 1 / 2"
proof -
  have "rat_of_int \<lfloor>x\<rfloor> \<le> x" "x < rat_of_int \<lfloor>x\<rfloor> + 1" by linarith+
  then show ?thesis
    unfolding roundHalfEven_def Let_def abs_le_iff
    by (simp split: if_split) linarith?
qed

lemma roundHalfEven_int: "roundHalfEven (rat_of_int z) = z"
  by (simp add: roundHalfEven_def)

lemma ilog2_bound:
  assumes "q \<noteq> 0" "\<bar>q\<bar> < pow2 E"
  shows "ilog2 \<bar>q\<bar> < E"
proof (rule ccontr)
  assume "\<not> ilog2 \<bar>q\<bar> < E"
  then have "E \<le> ilog2 \<bar>q\<bar>" by simp
  then have "pow2 E \<le> pow2 (ilog2 \<bar>q\<bar>)" by (rule pow2_mono)
  also have "\<dots> \<le> \<bar>q\<bar>" using assms(1) by (intro ilog2_le) simp
  finally show False using assms(2) by simp
qed

lemma roundDouble_close_gen:
  assumes "\<bar>q\<bar> < pow2 E" "- 1021 \<le> E" "E \<le> 1023"
  shows "\<exists>r. roundDouble q = Fin r \<and> \<bar>r - q\<bar> \<le> pow2 (E - 54)"
proof (cases "q = 0")
  case True
  then show ?thesis using pow2_pos [of "E - 54"] by (simp add: roundDouble_def)
next
  case False
  define e where "e = max (ilog2 \<bar>q\<bar> - 52) (- 1074)"
  define m where "m = roundHalfEven (q / pow2 e)"
  define r where "r = rat_of_int m * pow2 e"
  have "ilog2 \<bar>q\<bar> < E" using False assms(1) by (rule ilog2_bound)
  then have "e \<le> E - 53" using assms(2) by (simp add: e_def)
  then have pe: "pow2 e \<le> pow2 (E - 53)" by (rule pow2_mono)
  have half: "pow2 (E - 53) = 2 * pow2 (E - 54)"
    using power_int_add [of "2::rat" "E - 54" 1] by (simp add: pow2_eq)
  have pos: "0 < pow2 e" by (rule pow2_pos)
  have "r - q = (rat_of_int m - q / pow2 e) * pow2 e"
    using pos by (simp add: r_def field_simps)
  then have "\<bar>r - q\<bar> = \<bar>rat_of_int m - q / pow2 e\<bar> * pow2 e"
    using pos by (simp add: abs_mult)
  also have "\<dots> \<le> (1 / 2) * pow2 e"
    using roundHalfEven_close [of "q / pow2 e"] pos
    by (intro mult_right_mono) (simp_all add: m_def)
  also have "\<dots> \<le> pow2 (E - 54)" using pe half by simp
  finally have close: "\<bar>r - q\<bar> \<le> pow2 (E - 54)" .
  have "pow2 (E - 54) \<le> pow2 E" by (rule pow2_mono) simp
  with close assms(1) have "\<bar>r\<bar> < 2 * pow2 E" by linarith
  also have "\<dots> = pow2 (E + 1)"
    using power_int_add [of "2::rat" E 1] by (simp add: pow2_eq)
  also have "\<dots> \<le> pow2 1024" using assms(3) by (intro pow2_mono) simp
  finally have "\<not> pow2 1024 \<le> \<bar>r\<bar>" by simp
  then have "roundDouble q = Fin r"
    using False
    by (simp add: roundDouble_def Let_def e_def [symmetric] m_def [symmetric] r_def [symmetric])
  with close show ?thesis by blast
qed

lemma roundDouble_int_exact:
  assumes "\<bar>k\<bar> < 2 ^ 53"
  shows "roundDouble (rat_of_int k) = Fin (rat_of_int k)"
proof (cases "k = 0")
  case True
  then show ?thesis by (simp add: roundDouble_def)
next
  case False
  define q where "q = rat_of_int k"
  define e where "e = max (ilog2 \<bar>q\<bar> - 52) (- 1074)"
  define n where "n = nat (- e)"
  have q0: "q \<noteq> 0" using False by (simp add: q_def)
  have "\<bar>q\<bar> = rat_of_int \<bar>k\<bar>" by (simp add: q_def)
  also have "\<dots> < rat_of_int (2 ^ 53)" using assms by (simp only: of_int_less_iff)
  finally have "\<bar>q\<bar> < pow2 53" by (simp add: pow2_eq)
  with q0 have "ilog2 \<bar>q\<bar> < 53" by (rule ilog2_bound)
  then have e0: "e \<le> 0" by (simp add: e_def)
  then have pe: "pow2 e = 1 / 2 ^ n"
    by (simp add: pow2_def n_def)
  have "q / pow2 e = rat_of_int (k * 2 ^ n)" by (simp add: pe q_def)
  then have m: "roundHalfEven (q / pow2 e) = k * 2 ^ n" by (simp only: roundHalfEven_int)
  have r: "rat_of_int k * 2 ^ n * pow2 e = q" by (simp add: pe q_def)
  have "\<bar>q\<bar> < pow2 1024"
    using \<open>\<bar>q\<bar> < pow2 53\<close> pow2_mono [of 53 1024] by simp
  then have "roundDouble q = Fin q"
    using q0 by (simp add: roundDouble_def Let_def e_def [symmetric] m r)
  then show ?thesis by (simp add: q_def)
qed

text \<open>
  Below \<open>2 ^ 41\<close> in magnitude a rounded result is finite and within \<open>2 powi (-13)\<close> of
  the exact one.
\<close>

lemma roundDouble_close:
  assumes "\<bar>q\<bar> < 2 ^ 41"
  shows "\<exists>r. roundDouble q = Fin r \<and> \<bar>r - q\<bar> \<le> 1 / 8192"
proof (cases "q = 0")
  case True
  then show ?thesis by (simp add: roundDouble_def)
next
  case False
  define e where "e = max (ilog2 \<bar>q\<bar> - 52) (- 1074)"
  define m where "m = roundHalfEven (q / pow2 e)"
  define r where "r = rat_of_int m * pow2 e"
  have "ilog2 \<bar>q\<bar> \<le> 40"
  proof (rule ccontr)
    assume "\<not> ilog2 \<bar>q\<bar> \<le> 40"
    then have "41 \<le> ilog2 \<bar>q\<bar>" by simp
    then have "pow2 41 \<le> pow2 (ilog2 \<bar>q\<bar>)" by (rule pow2_mono)
    also have "\<dots> \<le> \<bar>q\<bar>" using False by (intro ilog2_le) simp
    finally show False using assms by (simp add: pow2_eq)
  qed
  then have "e \<le> - 12" by (simp add: e_def)
  then have "pow2 e \<le> pow2 (- 12)" by (rule pow2_mono)
  then have pe: "pow2 e \<le> 1 / 4096" by (simp add: pow2_eq power_int_minus inverse_eq_divide)
  have pos: "0 < pow2 e" by (rule pow2_pos)
  have "r - q = (rat_of_int m - q / pow2 e) * pow2 e"
    using pos by (simp add: r_def field_simps)
  then have "\<bar>r - q\<bar> = \<bar>rat_of_int m - q / pow2 e\<bar> * pow2 e"
    using pos by (simp add: abs_mult)
  also have "\<dots> \<le> (1 / 2) * pow2 e"
    using roundHalfEven_close [of "q / pow2 e"] pos
    by (intro mult_right_mono) (simp_all add: m_def)
  also have "\<dots> \<le> 1 / 8192" using pe by simp
  finally have close: "\<bar>r - q\<bar> \<le> 1 / 8192" .
  then have "\<bar>r\<bar> < 2 ^ 41 + 1" using assms by linarith
  also have "(2::rat) ^ 41 + 1 \<le> pow2 1024" by (simp add: pow2_eq)
  finally have "\<not> pow2 1024 \<le> \<bar>r\<bar>" by simp
  then have "roundDouble q = Fin r"
    using False by (simp add: roundDouble_def Let_def e_def [symmetric] m_def [symmetric] r_def [symmetric])
  with close show ?thesis by blast
qed

text \<open>Some sums and products as every implementation of binary64 gives them.\<close>

lemma double_arithmetic_examples:
  "roundDouble (1 / 10) = Fin (3602879701896397 / 36028797018963968)"
  "num_add (roundDouble (1 / 10)) (roundDouble (1 / 5)) = Fin (1351079888211149 / 4503599627370496)"
  "num_mul (Fin 3) lit_0_20 = Fin (1351079888211149 / 2251799813685248)"
  "num_mul (Fin 3) lit_0_40 = Fin (1351079888211149 / 1125899906842624)"
  "num_add (num_mul (Fin 3) lit_0_20) (num_mul (Fin 3) lit_0_40)
     = Fin (4053239664633447 / 2251799813685248)"
  "num_mul (Fin 1000) lit_0_20 = Fin 200"
  "num_mul (Fin 1000) lit_0_40 = Fin 400"
  by code_simp+

section \<open>Received amount\<close>

lemma lit_0_20_value: "lit_0_20 = Fin (3602879701896397 / 18014398509481984)"
  by code_simp

lemma lit_0_40_value: "lit_0_40 = Fin (3602879701896397 / 9007199254740992)"
  by code_simp

lemma received_decomposition:
  "calculateReceivedAmount order =
     numSum ((if deposit (paymentStatus order)
              then [num_mul (totalValue (financials order)) lit_0_20] else [])
           @ (if pickup (paymentStatus order)
              then [num_mul (totalValue (financials order)) lit_0_40] else [])
           @ (if delivery (paymentStatus order)
              then [num_mul (totalValue (financials order)) lit_0_40] else []))"
  by (simp add: calculateReceivedAmount_def numSum_def Let_def)

lemma received_all_paid_close:
  assumes flags: "deposit (paymentStatus order)" "pickup (paymentStatus order)"
      "delivery (paymentStatus order)"
    and total: "totalValue (financials order) = Fin t"
    and range: "0 \<le> t" "t \<le> 2 ^ 40"
  shows "\<exists>r. calculateReceivedAmount order = Fin r \<and> \<bar>r - t\<bar> \<le> 1 / 1000"
proof -
  define c20 :: rat where "c20 = 3602879701896397 / 18014398509481984"
  define c40 :: rat where "c40 = 3602879701896397 / 9007199254740992"
  have t41: "t \<le> 1099511627776" using range by simp
  have "\<bar>t * c20\<bar> < 2 ^ 41" using range t41 by (simp add: c20_def abs_if)
  then obtain d where d: "roundDouble (t * c20) = Fin d" "\<bar>d - t * c20\<bar> \<le> 1 / 8192"
    using roundDouble_close by blast
  have "\<bar>t * c40\<bar> < 2 ^ 41" using range t41 by (simp add: c40_def abs_if)
  then obtain p where p: "roundDouble (t * c40) = Fin p" "\<bar>p - t * c40\<bar> \<le> 1 / 8192"
    using roundDouble_close by blast
  have "\<bar>0 + d\<bar> < 2 ^ 41" using d(2) range t41 by (simp add: c20_def abs_if split: if_splits)
  then obtain r1 where r1: "roundDouble (0 + d) = Fin r1" "\<bar>r1 - (0 + d)\<bar> \<le> 1 / 8192"
    using roundDouble_close by blast
  have "\<bar>r1 + p\<bar> < 2 ^ 41"
    using r1(2) d(2) p(2) range t41 unfolding c20_def c40_def abs_le_iff abs_less_iff by simp
  then obtain r2 where r2: "roundDouble (r1 + p) = Fin r2" "\<bar>r2 - (r1 + p)\<bar> \<le> 1 / 8192"
    using roundDouble_close by blast
  have "\<bar>r2 + p\<bar> < 2 ^ 41"
    using r2(2) r1(2) d(2) p(2) range t41 unfolding c20_def c40_def abs_le_iff abs_less_iff by simp
  then obtain r3 where r3: "roundDouble (r2 + p) = Fin r3" "\<bar>r3 - (r2 + p)\<bar> \<le> 1 / 8192"
    using roundDouble_close by blast
  have "calculateReceivedAmount order = Fin r3"
    using flags total d(1) p(1) r1(1) r2(1) r3(1)
    by (simp add: calculateReceivedAmount_def Let_def lit_0_20_value lit_0_40_value
        c20_def [symmetric] c40_def [symmetric])
  moreover have "\<bar>r3 - t\<bar> \<le> 1 / 1000"
    using r3(2) r2(2) r1(2) d(2) p(2) range t41 unfolding c20_def c40_def abs_le_iff by simp
  ultimately show ?thesis by blast
qed

lemma received_3_value:
  "calculateReceivedAmount
     \<lparr> clientName = ''Cliente'', whatsapp = [], origin = [], destination = [],
       isContractSigned = True, isPostedFretebras = False,
       paymentStatus = \<lparr> deposit = True, pickup = True, delivery = True \<rparr>,
       isCostsPaid = True, progress = Stage100,
       financials = \<lparr> totalValue = Fin 3, driverCost = Fin 0, extras = [] \<rparr>,
       pickupDate = ''2024-06-05'', deliveryForecast = [], order_notes = [],
       noteTags = ''#334155'', order_id = ''OS-2024-1'', createdAt = [] \<rparr>
   = Fin (3 + 1 / 2 ^ 51)"
  by code_simp

lemma received_1000_exact:
  "calculateReceivedAmount
     \<lparr> clientName = ''Cliente'', whatsapp = [], origin = [], destination = [],
       isContractSigned = True, isPostedFretebras = False,
       paymentStatus = \<lparr> deposit = True, pickup = True, delivery = True \<rparr>,
       isCostsPaid = True, progress = Stage100,
       financials = \<lparr> totalValue = Fin 1000, driverCost = Fin 0, extras = [] \<rparr>,
       pickupDate = ''2024-06-05'', deliveryForecast = [], order_notes = [],
       noteTags = ''#334155'', order_id = ''OS-2024-1'', createdAt = [] \<rparr>
   = Fin 1000"
  by code_simp

text \<open>
  C4, as stated, fails: with all three payments made on a total of 3 the received amount is
  \<open>3 * 0.2 + 3 * 0.4 + 3 * 0.4\<close> in double arithmetic, which is 3.0000000000000004 and not 3.
\<close>

theorem received_amount_not_exact_counterexample:
  "calculateReceivedAmount
     \<lparr> clientName = ''Cliente'', whatsapp = [], origin = [], destination = [],
       isContractSigned = True, isPostedFretebras = False,
       paymentStatus = \<lparr> deposit = True, pickup = True, delivery = True \<rparr>,
       isCostsPaid = True, progress = Stage100,
       financials = \<lparr> totalValue = Fin 3, driverCost = Fin 0, extras = [] \<rparr>,
       pickupDate = ''2024-06-05'', deliveryForecast = [], order_notes = [],
       noteTags = ''#334155'', order_id = ''OS-2024-1'', createdAt = [] \<rparr>
   \<noteq> totalValue (financials
     \<lparr> clientName = ''Cliente'', whatsapp = [], origin = [], destination = [],
       isContractSigned = True, isPostedFretebras = False,
       paymentStatus = \<lparr> deposit = True, pickup = True, delivery = True \<rparr>,
       isCostsPaid = True, progress = Stage100,
       financials = \<lparr> totalValue = Fin 3, driverCost = Fin 0, extras = [] \<rparr>,
       pickupDate = ''2024-06-05'', deliveryForecast = [], order_notes = [],
       noteTags = ''#334155'', order_id = ''OS-2024-1'', createdAt = [] \<rparr>)"
  by code_simp

text \<open>
  C4, amended.  For every order the received amount is the sum, accumulated from 0 in double
  arithmetic, of the total times 0.20 if the deposit is paid, the total times 0.40 if the
  pickup is paid and the total times 0.40 if the delivery is paid: each milestone contributes
  the same fraction of the total whatever the other flags are.  With all three flags true and
  a total between 0 and \<open>2 ^ 40\<close> the result is a finite number within 0.001 of the total;
  it is exactly the total for 1000.
\<close>

theorem received_amount_fractions:
  "calculateReceivedAmount order =
     numSum ((if deposit (paymentStatus order)
              then [num_mul (totalValue (financials order)) lit_0_20] else [])
           @ (if pickup (paymentStatus order)
              then [num_mul (totalValue (financials order)) lit_0_40] else [])
           @ (if delivery (paymentStatus order)
              then [num_mul (totalValue (financials order)) lit_0_40] else []))
   \<and> (deposit (paymentStatus order) \<and> pickup (paymentStatus order)
        \<and> delivery (paymentStatus order)
        \<and> totalValue (financials order) = Fin t \<and> 0 \<le> t \<and> t \<le> 2 ^ 40
      \<longrightarrow> (\<exists>r. calculateReceivedAmount order = Fin r \<and> \<bar>r - t\<bar> \<le> 1 / 1000))
   \<and> calculateReceivedAmount
       \<lparr> clientName = ''Cliente'', whatsapp = [], origin = [], destination = [],
         isContractSigned = True, isPostedFretebras = False,
         paymentStatus = \<lparr> deposit = True, pickup = True, delivery = True \<rparr>,
         isCostsPaid = True, progress = Stage100,
         financials = \<lparr> totalValue = Fin 1000, driverCost = Fin 0, extras = [] \<rparr>,
         pickupDate = ''2024-06-05'', deliveryForecast = [], order_notes = [],
         noteTags = ''#334155'', order_id = ''OS-2024-1'', createdAt = [] \<rparr>
     = Fin 1000"
  using received_decomposition [of order] received_all_paid_close [of order t] received_1000_exact
  by blast

theorem received_amount_fractions_witness:
  "\<exists>r. calculateReceivedAmount
         \<lparr> clientName = ''Cliente'', whatsapp = [], origin = [], destination = [],
           isContractSigned = True, isPostedFretebras = False,
           paymentStatus = \<lparr> deposit = True, pickup = True, delivery = True \<rparr>,
           isCostsPaid = True, progress = Stage100,
           financials = \<lparr> totalValue = Fin 3, driverCost = Fin 0, extras = [] \<rparr>,
           pickupDate = ''2024-06-05'', deliveryForecast = [], order_notes = [],
           noteTags = ''#334155'', order_id = ''OS-2024-1'', createdAt = [] \<rparr>
       = Fin r \<and> \<bar>r - 3\<bar> \<le> 1 / 1000"
  using received_amount_fractions
    [of "\<lparr> clientName = ''Cliente'', whatsapp = [], origin = [], destination = [],
         isContractSigned = True, isPostedFretebras = False,
         paymentStatus = \<lparr> deposit = True, pickup = True, delivery = True \<rparr>,
         isCostsPaid = True, progress = Stage100,
         financials = \<lparr> totalValue = Fin 3, driverCost = Fin 0, extras = [] \<rparr>,
         pickupDate = ''2024-06-05'', deliveryForecast = [], order_notes = [],
         noteTags = ''#334155'', order_id = ''OS-2024-1'', createdAt = [] \<rparr>" 3, THEN conjunct2, THEN conjunct1]
  by simp

section \<open>Critical orders\<close>

text \<open>
  The difference of two time values less than \<open>2 ^ 53\<close> apart is exact, and for differences
  of less than \<open>2 ^ 26\<close> days the rounding of the quotient by the length of a day does not
  reach the next integer: \<open>Math.ceil\<close> of the double quotient is the ceiling of the exact one.
\<close>

lemma num_sub_int_exact:
  assumes "\<bar>t - n\<bar> < 2 ^ 53"
  shows "num_sub (Fin (rat_of_int t)) (Fin (rat_of_int n)) = Fin (rat_of_int (t - n))"
  using roundDouble_int_exact [OF assms] by (simp add: num_sub_def)

lemma day_quotient_ceiling:
  assumes "\<bar>a\<bar> < 2 ^ 26 * msPerDay"
  shows "Math_ceil (num_div (Fin (rat_of_int a)) (Fin (rat_of_int msPerDay)))
           = Fin (rat_of_int \<lceil>rat_of_int a / rat_of_int msPerDay\<rceil>)"
proof -
  define x where "x = rat_of_int a / rat_of_int msPerDay"
  define k where "k = a div msPerDay"
  define m where "m = a mod msPerDay"
  have ms: "msPerDay = 86400000" by (simp add: msPerDay_def)
  have a: "a = k * 86400000 + m" unfolding k_def m_def ms by simp
  have m: "0 \<le> m" "m < 86400000" unfolding m_def ms by simp_all
  have x: "x = rat_of_int k + rat_of_int m / 86400000"
    unfolding x_def ms by (simp add: a field_simps)
  have kb: "\<bar>k\<bar> \<le> 2 ^ 26"
    using assms m unfolding ms a by (simp add: abs_le_iff abs_less_iff)
  have div: "num_div (Fin (rat_of_int a)) (Fin (rat_of_int msPerDay)) = roundDouble x"
    by (simp add: x_def ms)
  show ?thesis
  proof (cases "m = 0")
    case True
    then have "x = rat_of_int k" using x by simp
    moreover have "\<bar>k\<bar> < 2 ^ 53" using kb by simp
    ultimately show ?thesis
      unfolding div x_def [symmetric] by (simp add: roundDouble_int_exact)
  next
    case False
    then have m1: "1 \<le> m" using m by simp
    have lo: "rat_of_int k + 1 / 86400000 \<le> x"
      using m1 unfolding x by (simp add: field_simps)
    have hi: "x \<le> rat_of_int k + 1 - 1 / 86400000"
      using m(2) unfolding x by (simp add: field_simps)
    have "\<bar>rat_of_int k\<bar> \<le> 2 ^ 26"
      using kb by (metis of_int_abs of_int_le_numeral_power_cancel_iff)
    then have "\<bar>x\<bar> < pow2 27" using lo hi by (simp add: pow2_eq abs_le_iff abs_less_iff)
    then obtain r where r: "roundDouble x = Fin r" "\<bar>r - x\<bar> \<le> pow2 (27 - 54)"
      using roundDouble_close_gen [of x 27] by auto
    have p: "pow2 (27 - 54) = 1 / 134217728" by (simp add: pow2_def)
    have "rat_of_int k < r" "r \<le> rat_of_int k + 1"
      using r(2) lo hi unfolding p abs_le_iff by linarith+
    then have "\<lceil>r\<rceil> = k + 1" by (simp add: ceiling_unique)
    moreover have "\<lceil>x\<rceil> = k + 1" using lo hi by (intro ceiling_unique) simp_all
    ultimately show ?thesis
      unfolding div r(1) x_def [symmetric] by simp
  qed
qed

lemma diffDays_exact:
  assumes parts: "map toNumber (split CHR ''-'' pd) = [Some y, Some m, Some d]"
    and target: "newDate tz (Some y) (Some (m - 1)) (Some d) = Some targetDate"
    and today: "newDate tz (Some (fullYear now)) (Some (monthIndex now)) (Some (dayOfMonth now))
           = Some nowMidnight"
    and range: "\<bar>targetDate - nowMidnight\<bar> < 2 ^ 26 * msPerDay"
  shows "diffDays tz now pd
           = Fin (rat_of_int \<lceil>rat_of_int (targetDate - nowMidnight) / rat_of_int msPerDay\<rceil>)"
proof -
  let ?parts = "[Some y, Some m, Some d]"
  have p0: "(if 0 < length ?parts then ?parts ! 0 else None) = Some y" by simp
  have p1: "(if 1 < length ?parts then ?parts ! 1 else None) = Some m" by simp
  have p2: "(if 2 < length ?parts then ?parts ! 2 else None) = Some d" by simp
  have "\<bar>targetDate - nowMidnight\<bar> < 2 ^ 53"
    using range by (simp add: msPerDay_def)
  then have sub: "num_sub (Fin (rat_of_int targetDate)) (Fin (rat_of_int nowMidnight))
                    = Fin (rat_of_int (targetDate - nowMidnight))"
    by (rule num_sub_int_exact)
  show ?thesis
    unfolding diffDays_def Let_def parts p0 p1 p2
    by (simp only: target today option.map timeValue_def option.case sub
        day_quotient_ceiling [OF range])
qed

lemma calendar_examples:
  "daysFromCivil 1970 1 1 = 0"
  "daysFromCivil 1969 12 31 = - 1"
  "daysFromCivil 2000 2 29 = 11016"
  "daysFromCivil 2000 3 1 = 11017"
  "daysFromCivil 2024 6 10 = 19884"
  "daysFromCivil 2100 3 1 = 47541"
  "MakeDay 2025 1 32 = daysFromCivil 2025 3 4"
  "MakeDay 2000 (- 2) 30 = daysFromCivil 1999 11 30"
  by (simp_all add: daysFromCivil_def MakeDay_def)

lemma newDate_fixed_offset:
  assumes "99 < y" "\<bar>MakeDay y m d * msPerDay - c\<bar> \<le> 8640000000000000"
  shows "newDate (\<lambda>_. c) (Some y) (Some m) (Some d) = Some (MakeDay y m d * msPerDay - c)"
  using assms by (simp add: newDate_def TimeClip_def Let_def)

text \<open>
  In a time zone with a fixed offset \<open>diffDays\<close> is the number of calendar days from today to
  the pickup date.
\<close>

lemma diffDays_fixed_offset:
  assumes parts: "map toNumber (split CHR ''-'' pd) = [Some y, Some m, Some d]"
    and years: "99 < y" "99 < fullYear now"
    and target: "\<bar>MakeDay y (m - 1) d * msPerDay - c\<bar> \<le> 8640000000000000"
    and today: "\<bar>MakeDay (fullYear now) (monthIndex now) (dayOfMonth now) * msPerDay - c\<bar>
                  \<le> 8640000000000000"
    and range: "\<bar>MakeDay y (m - 1) d - MakeDay (fullYear now) (monthIndex now) (dayOfMonth now)\<bar>
                  < 2 ^ 26"
  shows "diffDays (\<lambda>_. c) now pd =
           Fin (rat_of_int
             (MakeDay y (m - 1) d - MakeDay (fullYear now) (monthIndex now) (dayOfMonth now)))"
proof -
  define a where "a = MakeDay y (m - 1) d"
  define b where "b = MakeDay (fullYear now) (monthIndex now) (dayOfMonth now)"
  have diff: "a * msPerDay - c - (b * msPerDay - c) = (a - b) * msPerDay"
    by (simp add: algebra_simps)
  have "\<bar>(a - b) * msPerDay\<bar> = \<bar>a - b\<bar> * msPerDay"
    unfolding abs_mult by (simp add: msPerDay_def)
  also have "\<dots> < 2 ^ 26 * msPerDay"
    using range by (simp add: a_def b_def msPerDay_def)
  finally have r: "\<bar>a * msPerDay - c - (b * msPerDay - c)\<bar> < 2 ^ 26 * msPerDay"
    by (simp only: diff)
  have "rat_of_int ((a - b) * msPerDay) / rat_of_int msPerDay = rat_of_int (a - b)"
    by (simp add: msPerDay_def)
  then have c: "\<lceil>rat_of_int (a * msPerDay - c - (b * msPerDay - c)) / rat_of_int msPerDay\<rceil> = a - b"
    by (simp only: diff ceiling_of_int)
  show ?thesis
    using diffDays_exact [OF parts newDate_fixed_offset [OF years(1) target]
        newDate_fixed_offset [OF years(2) today]] r c
    by (simp only: a_def b_def)
qed

lemma parts_0615: "map toNumber (split CHR ''-'' ''2024-06-15'') = [Some 2024, Some 6, Some 15]"
  by code_simp

lemma parts_0616: "map toNumber (split CHR ''-'' ''2024-06-16'') = [Some 2024, Some 6, Some 16]"
  by code_simp

lemma parts_0609: "map toNumber (split CHR ''-'' ''2024-06-09'') = [Some 2024, Some 6, Some 9]"
  by code_simp

lemma MakeDay_june_2024: "MakeDay 2024 5 d = 19874 + d"
  by (simp add: MakeDay_def daysFromCivil_def)

lemma diffDays_june_2024:
  assumes "map toNumber (split CHR ''-'' pd) = [Some 2024, Some 6, Some d]"
    and "\<bar>c\<bar> \<le> 86400000" "1 \<le> d" "d \<le> 30"
  shows "diffDays (\<lambda>_. c) \<lparr> fullYear = 2024, monthIndex = 5, dayOfMonth = 10 \<rparr> pd
           = Fin (rat_of_int (d - 10))"
proof -
  have "diffDays (\<lambda>_. c) \<lparr> fullYear = 2024, monthIndex = 5, dayOfMonth = 10 \<rparr> pd
        = Fin (rat_of_int (MakeDay 2024 (6 - 1) d - MakeDay 2024 5 10))"
    using assms(2-4)
    by (subst diffDays_fixed_offset [OF assms(1)])
       (simp_all add: MakeDay_june_2024 msPerDay_def abs_le_iff)
  then show ?thesis by (simp add: MakeDay_june_2024)
qed

lemma critical_iff:
  "isOrderCritical tz now order =
     (stageValue (progress order) \<noteq> 100 \<and> num_le (diffDays tz now (pickupDate order)) (Fin 5))"
  by (simp add: isOrderCritical_def)

lemma june_examples:
  assumes "stageValue (progress order) \<noteq> 100" and "\<bar>c\<bar> \<le> 86400000"
  shows "(pickupDate order = ''2024-06-15'' \<longrightarrow>
            isOrderCritical (\<lambda>_. c) \<lparr> fullYear = 2024, monthIndex = 5, dayOfMonth = 10 \<rparr> order)
       \<and> (pickupDate order = ''2024-06-16'' \<longrightarrow>
            \<not> isOrderCritical (\<lambda>_. c) \<lparr> fullYear = 2024, monthIndex = 5, dayOfMonth = 10 \<rparr> order)
       \<and> (pickupDate order = ''2024-06-09'' \<longrightarrow>
            isOrderCritical (\<lambda>_. c) \<lparr> fullYear = 2024, monthIndex = 5, dayOfMonth = 10 \<rparr> order)"
  using assms
  by (simp add: critical_iff diffDays_june_2024 [OF parts_0615] diffDays_june_2024 [OF parts_0616]
      diffDays_june_2024 [OF parts_0609])

text \<open>
  C3.  An order whose progress is 100 is never critical, whatever its pickup date and whatever
  today is.  Any other order is critical exactly when \<open>diffDays <= 5\<close>, zero and negative
  values included.  When the pickup date has its three numeric parts and both dates have a
  time value, less than \<open>2 ^ 26\<close> days apart, \<open>diffDays\<close> is the ceiling of the difference, in
  days, between local midnight of the pickup date and local midnight of today.  With today
  fixed at 2024-06-10, in a time zone with a fixed offset from UTC (no time zone in use
  changes its offset between 9 and 16 June 2024), an order not at progress 100 is critical for
  the pickup dates 2024-06-15 and 2024-06-09 and not critical for 2024-06-16.
\<close>

theorem order_critical_rule:
  "(stageValue (progress order) = 100 \<longrightarrow> \<not> isOrderCritical tz now order)
   \<and> (stageValue (progress order) \<noteq> 100 \<longrightarrow>
        isOrderCritical tz now order = num_le (diffDays tz now (pickupDate order)) (Fin 5))
   \<and> (map toNumber (split CHR ''-'' (pickupDate order)) = [Some y, Some m, Some d]
        \<and> newDate tz (Some y) (Some (m - 1)) (Some d) = Some targetDate
        \<and> newDate tz (Some (fullYear now)) (Some (monthIndex now)) (Some (dayOfMonth now))
            = Some nowMidnight
        \<and> \<bar>targetDate - nowMidnight\<bar> < 2 ^ 26 * msPerDay
      \<longrightarrow> diffDays tz now (pickupDate order)
            = Fin (rat_of_int \<lceil>rat_of_int (targetDate - nowMidnight) / rat_of_int msPerDay\<rceil>)
        \<and> (stageValue (progress order) \<noteq> 100 \<longrightarrow>
             isOrderCritical tz now order
               = (\<lceil>rat_of_int (targetDate - nowMidnight) / rat_of_int msPerDay\<rceil> \<le> 5)))
   \<and> (stageValue (progress order) \<noteq> 100 \<and> \<bar>c\<bar> \<le> 86400000 \<longrightarrow>
        (pickupDate order = ''2024-06-15'' \<longrightarrow>
           isOrderCritical (\<lambda>_. c) \<lparr> fullYear = 2024, monthIndex = 5, dayOfMonth = 10 \<rparr> order)
      \<and> (pickupDate order = ''2024-06-16'' \<longrightarrow>
           \<not> isOrderCritical (\<lambda>_. c) \<lparr> fullYear = 2024, monthIndex = 5, dayOfMonth = 10 \<rparr> order)
      \<and> (pickupDate order = ''2024-06-09'' \<longrightarrow>
           isOrderCritical (\<lambda>_. c) \<lparr> fullYear = 2024, monthIndex = 5, dayOfMonth = 10 \<rparr> order))"
proof (intro conjI impI)
  assume "stageValue (progress order) = 100"
  then show "\<not> isOrderCritical tz now order" by (simp add: critical_iff)
next
  assume "stageValue (progress order) \<noteq> 100"
  then show "isOrderCritical tz now order = num_le (diffDays tz now (pickupDate order)) (Fin 5)"
    by (simp add: critical_iff)
next
  assume h: "map toNumber (split CHR ''-'' (pickupDate order)) = [Some y, Some m, Some d]
        \<and> newDate tz (Some y) (Some (m - 1)) (Some d) = Some targetDate
        \<and> newDate tz (Some (fullYear now)) (Some (monthIndex now)) (Some (dayOfMonth now))
            = Some nowMidnight
        \<and> \<bar>targetDate - nowMidnight\<bar> < 2 ^ 26 * msPerDay"
  show exact: "diffDays tz now (pickupDate order)
          = Fin (rat_of_int \<lceil>rat_of_int (targetDate - nowMidnight) / rat_of_int msPerDay\<rceil>)"
    by (rule diffDays_exact [OF h [THEN conjunct1] h [THEN conjunct2, THEN conjunct1]
          h [THEN conjunct2, THEN conjunct2, THEN conjunct1]
          h [THEN conjunct2, THEN conjunct2, THEN conjunct2]])
  assume "stageValue (progress order) \<noteq> 100"
  then show "isOrderCritical tz now order
               = (\<lceil>rat_of_int (targetDate - nowMidnight) / rat_of_int msPerDay\<rceil> \<le> 5)"
    by (simp add: critical_iff exact)
next
  assume a: "stageValue (progress order) \<noteq> 100 \<and> \<bar>c\<bar> \<le> 86400000"
    and "pickupDate order = ''2024-06-15''"
  then show "isOrderCritical (\<lambda>_. c) \<lparr> fullYear = 2024, monthIndex = 5, dayOfMonth = 10 \<rparr> order"
    using june_examples [of order c] by blast
next
  assume a: "stageValue (progress order) \<noteq> 100 \<and> \<bar>c\<bar> \<le> 86400000"
    and "pickupDate order = ''2024-06-16''"
  then show "\<not> isOrderCritical (\<lambda>_. c) \<lparr> fullYear = 2024, monthIndex = 5, dayOfMonth = 10 \<rparr> order"
    using june_examples [of order c] by blast
next
  assume a: "stageValue (progress order) \<noteq> 100 \<and> \<bar>c\<bar> \<le> 86400000"
    and "pickupDate order = ''2024-06-09''"
  then show "isOrderCritical (\<lambda>_. c) \<lparr> fullYear = 2024, monthIndex = 5, dayOfMonth = 10 \<rparr> order"
    using june_examples [of order c] by blast
qed

lemma witness_midnights:
  "map toNumber (split CHR ''-'' ''2024-06-15'') = [Some 2024, Some 6, Some 15]
   \<and> newDate (\<lambda>_. - 10800000) (Some 2024) (Some (6 - 1)) (Some 15) = Some 1718420400000
   \<and> newDate (\<lambda>_. - 10800000) (Some 2024) (Some 5) (Some 10) = Some 1717988400000
   \<and> \<bar>1718420400000 - 1717988400000\<bar> < 2 ^ 26 * msPerDay
   \<and> \<lceil>rat_of_int (1718420400000 - 1717988400000) / rat_of_int msPerDay\<rceil> = 5"
  by code_simp

theorem order_critical_rule_witness:
  "isOrderCritical (\<lambda>_. - 10800000) \<lparr> fullYear = 2024, monthIndex = 5, dayOfMonth = 10 \<rparr>
     (scenarioOrder ''A'' ''2024-06-15'' Stage20)
   \<and> \<not> isOrderCritical (\<lambda>_. - 10800000) \<lparr> fullYear = 2024, monthIndex = 5, dayOfMonth = 10 \<rparr>
     (scenarioOrder ''B'' ''2024-06-16'' Stage20)
   \<and> isOrderCritical (\<lambda>_. - 10800000) \<lparr> fullYear = 2024, monthIndex = 5, dayOfMonth = 10 \<rparr>
     (scenarioOrder ''C'' ''2024-06-09'' Stage60)
   \<and> \<not> isOrderCritical (\<lambda>_. - 10800000) \<lparr> fullYear = 2024, monthIndex = 5, dayOfMonth = 10 \<rparr>
     (scenarioOrder ''D'' ''2024-06-10'' Stage100)
   \<and> diffDays (\<lambda>_. - 10800000) \<lparr> fullYear = 2024, monthIndex = 5, dayOfMonth = 10 \<rparr>
       ''2024-06-15'' = Fin 5"
proof -
  have dated:
    "isOrderCritical (\<lambda>_. - 10800000) \<lparr> fullYear = 2024, monthIndex = 5, dayOfMonth = 10 \<rparr>
       (scenarioOrder ''A'' ''2024-06-15'' Stage20)"
    "\<not> isOrderCritical (\<lambda>_. - 10800000) \<lparr> fullYear = 2024, monthIndex = 5, dayOfMonth = 10 \<rparr>
       (scenarioOrder ''B'' ''2024-06-16'' Stage20)"
    "isOrderCritical (\<lambda>_. - 10800000) \<lparr> fullYear = 2024, monthIndex = 5, dayOfMonth = 10 \<rparr>
       (scenarioOrder ''C'' ''2024-06-09'' Stage60)"
    using order_critical_rule [where order = "scenarioOrder ''A'' ''2024-06-15'' Stage20"
          and c = "- 10800000", THEN conjunct2, THEN conjunct2, THEN conjunct2]
      order_critical_rule [where order = "scenarioOrder ''B'' ''2024-06-16'' Stage20"
          and c = "- 10800000", THEN conjunct2, THEN conjunct2, THEN conjunct2]
      order_critical_rule [where order = "scenarioOrder ''C'' ''2024-06-09'' Stage60"
          and c = "- 10800000", THEN conjunct2, THEN conjunct2, THEN conjunct2]
    by (simp_all add: scenarioOrder_def)
  have finished: "\<not> isOrderCritical (\<lambda>_. - 10800000)
                  \<lparr> fullYear = 2024, monthIndex = 5, dayOfMonth = 10 \<rparr>
                  (scenarioOrder ''D'' ''2024-06-10'' Stage100)"
    using order_critical_rule [where order = "scenarioOrder ''D'' ''2024-06-10'' Stage100"
          and tz = "\<lambda>_. - 10800000"
          and now = "\<lparr> fullYear = 2024, monthIndex = 5, dayOfMonth = 10 \<rparr>", THEN conjunct1]
    by (simp add: scenarioOrder_def)
  have days: "diffDays (\<lambda>_. - 10800000) \<lparr> fullYear = 2024, monthIndex = 5, dayOfMonth = 10 \<rparr>
                ''2024-06-15'' = Fin 5"
    using order_critical_rule [where order = "scenarioOrder ''A'' ''2024-06-15'' Stage20"
          and tz = "\<lambda>_. - 10800000"
          and now = "\<lparr> fullYear = 2024, monthIndex = 5, dayOfMonth = 10 \<rparr>"
          and y = 2024 and m = 6 and d = 15
          and targetDate = 1718420400000 and nowMidnight = 1717988400000,
          THEN conjunct2, THEN conjunct2, THEN conjunct1]
      witness_midnights
    by (simp add: scenarioOrder_def)
  from dated finished days show ?thesis by (intro conjI)
qed

section \<open>Decimal strings\<close>

lemma digit_table:
  "list_all (\<lambda>d. digitValue 10 (digitChars ! nat d) = Some (nat d) \<and> plainDigit (digitChars ! nat d))
     [0, 1, 2, 3, 4, 5, 6, 7, 8, 9]"
  by code_simp

lemma digit_char:
  assumes "0 \<le> d" "d < 10"
  shows "digitValue 10 (digitChars ! nat d) = Some (nat d)" "plainDigit (digitChars ! nat d)"
proof -
  have "d \<in> set [0, 1, 2, 3, 4, 5, 6, 7, 8, 9]" using assms by (simp; presburger)
  with digit_table show "digitValue 10 (digitChars ! nat d) = Some (nat d)"
    "plainDigit (digitChars ! nat d)"
    unfolding list_all_iff by blast+
qed

lemma digitsValue_snoc:
  "digitsValue r (ds @ [ch]) =
     digitsValue r ds * int r + (case digitValue r ch of Some v \<Rightarrow> int v | None \<Rightarrow> 0)"
  by (simp add: digitsValue_def)

lemma digitsOf_value: "0 \<le> n \<Longrightarrow> digitsValue 10 (digitsOf n) = n"
proof (induction n rule: digitsOf.induct)
  case (1 n)
  show ?case
  proof (cases "n < 10")
    case True
    with 1(2) show ?thesis
      using digitsValue_snoc [of 10 "[]" "digitChars ! nat n"]
      by (simp add: digitsOf.simps [of n] digit_char digitsValue_def)
  next
    case False
    then have "digitsValue 10 (digitsOf (n div 10)) = n div 10"
      using 1 by simp
    moreover have "0 \<le> n mod 10" "n mod 10 < 10" by simp_all
    ultimately show ?thesis
      using False by (simp add: digitsOf.simps [of n] digitsValue_snoc digit_char)
  qed
qed

lemma digitsOf_plain: "0 \<le> n \<Longrightarrow> list_all plainDigit (digitsOf n)"
proof (induction n rule: digitsOf.induct)
  case (1 n)
  show ?case
  proof (cases "n < 10")
    case True
    with 1(2) show ?thesis by (simp add: digitsOf.simps [of n] digit_char)
  next
    case False
    moreover have "0 \<le> n mod 10" "n mod 10 < 10" by simp_all
    ultimately show ?thesis
      using 1 by (simp add: digitsOf.simps [of n] digit_char)
  qed
qed

lemma digitsOf_nonempty: "digitsOf n \<noteq> []"
  by (subst digitsOf.simps) simp

lemma parseInt_plain:
  assumes "list_all plainDigit ds" "ds \<noteq> []"
  shows "parseInt ds = Some (digitsValue 10 ds)"
    and "parseInt (CHR ''-'' # ds) = Some (- digitsValue 10 ds)"
proof -
  have hd: "plainDigit (hd ds)" using assms by (cases ds) simp_all
  have second: "\<And>a b r. ds = a # b # r \<Longrightarrow> b \<noteq> CHR ''x'' \<and> b \<noteq> CHR ''X''"
    using assms(1) by (auto simp: plainDigit_def)
  have split2: "ds = take 2 ds @ drop 2 ds" by simp
  have nohex: "take 2 ds \<noteq> ''0x''" "take 2 ds \<noteq> ''0X''"
  proof -
    show "take 2 ds \<noteq> ''0x''"
    proof
      assume "take 2 ds = ''0x''"
      with split2 have "ds = CHR ''0'' # CHR ''x'' # drop 2 ds" by (metis append_Cons append_Nil)
      with second show False by blast
    qed
    show "take 2 ds \<noteq> ''0X''"
    proof
      assume "take 2 ds = ''0X''"
      with split2 have "ds = CHR ''0'' # CHR ''X'' # drop 2 ds" by (metis append_Cons append_Nil)
      with second show False by blast
    qed
  qed
  have tw: "takeWhile (isDigit 10) ds = ds"
    using assms(1) by (induction ds) (auto simp: plainDigit_def)
  have s0: "dropWhile isWhiteSpace ds = ds"
    using hd by (simp add: dropWhile_eq_self_iff plainDigit_def)
  have hdm: "hd ds \<noteq> CHR ''-''" "hd ds \<noteq> CHR ''+''"
    using hd by (simp_all add: plainDigit_def)
  have ws: "\<not> isWhiteSpace CHR ''-''" by (simp add: isWhiteSpace_def)
  show "parseInt ds = Some (digitsValue 10 ds)"
    unfolding parseInt_def Let_def s0
    using assms(2) hdm nohex by (simp add: tw)
  have s0': "dropWhile isWhiteSpace (CHR ''-'' # ds) = CHR ''-'' # ds"
    using ws by simp
  show "parseInt (CHR ''-'' # ds) = Some (- digitsValue 10 ds)"
    unfolding parseInt_def Let_def s0'
    using assms(2) nohex by (simp add: tw)
qed

lemma parseInt_toString: "parseInt (toString n) = Some n"
proof (cases "n < 0")
  case True
  then have "0 \<le> - n" by simp
  then show ?thesis
    using True parseInt_plain(2) [OF digitsOf_plain digitsOf_nonempty, of "- n"]
    by (simp add: toString_def digitsOf_value)
next
  case False
  then have "0 \<le> n" by simp
  then show ?thesis
    using False parseInt_plain(1) [OF digitsOf_plain digitsOf_nonempty, of n]
    by (simp add: toString_def digitsOf_value)
qed

lemma toString_nonempty: "toString n \<noteq> []"
  by (simp add: toString_def digitsOf_nonempty)

section \<open>Alert debounce\<close>

lemma shouldShow_written: "shouldShow (Some (toString t0)) now = (FIVE_HOURS < now - t0)"
  by (simp add: shouldShow_def parseInt_toString toString_nonempty)

lemma shouldShow_absent: "shouldShow None now"
  by (simp add: shouldShow_def)

lemma pass_suppressed:
  assumes "lastExpirationAlertTime st = Some (toString t0)" "now - t0 \<le> FIVE_HOURS"
  shows "checkCriticalOrders tz today now orders st = st"
  using assms by (simp add: checkCriticalOrders_def Let_def shouldShow_written)

lemma pass_raises:
  assumes "filter (isOrderCritical tz today) orders \<noteq> []"
    and "lastExpirationAlertTime st = None
         \<or> lastExpirationAlertTime st = Some (toString t0) \<and> FIVE_HOURS < now - t0"
  shows "checkCriticalOrders tz today now orders st =
           st\<lparr> urgentAlert := \<lparr> alert_count = length (filter (isOrderCritical tz today) orders),
                                 alert_names = map clientName (filter (isOrderCritical tz today) orders),
                                 alert_show = True \<rparr>,
               lastExpirationAlertTime := Some (toString now),
               alertsRaised := Suc (alertsRaised st) \<rparr>"
  using assms by (auto simp: checkCriticalOrders_def Let_def shouldShow_written shouldShow_absent)

lemma pass_keeps_store_shape:
  assumes "lastExpirationAlertTime st = None \<or> (\<exists>t. lastExpirationAlertTime st = Some (toString t))"
  shows "lastExpirationAlertTime (checkCriticalOrders tz today now orders st) = None
         \<or> (\<exists>t. lastExpirationAlertTime (checkCriticalOrders tz today now orders st)
                   = Some (toString t))"
  using assms by (auto simp: checkCriticalOrders_def Let_def)

lemma runPasses_keeps_store_shape:
  assumes "lastExpirationAlertTime st = None \<or> (\<exists>t. lastExpirationAlertTime st = Some (toString t))"
  shows "lastExpirationAlertTime (runPasses tz ps st) = None
         \<or> (\<exists>t. lastExpirationAlertTime (runPasses tz ps st) = Some (toString t))"
  using assms
proof (induction ps arbitrary: st)
  case Nil
  then show ?case by simp
next
  case (Cons p ps)
  show ?case
    unfolding runPasses.simps
    by (rule Cons.IH) (rule pass_keeps_store_shape [OF Cons.prems])
qed

lemma three_passes:
  assumes none: "lastExpirationAlertTime st = None"
    and c1: "filter (isOrderCritical tz (pass_today p1)) (pass_orders p1) \<noteq> []"
    and c2: "filter (isOrderCritical tz (pass_today p2)) (pass_orders p2) \<noteq> []"
    and c3: "filter (isOrderCritical tz (pass_today p3)) (pass_orders p3) \<noteq> []"
    and near: "pass_now p2 - pass_now p1 \<le> FIVE_HOURS"
    and far: "FIVE_HOURS < pass_now p3 - pass_now p1"
  shows "alertsRaised (runPasses tz [p1] st) = Suc (alertsRaised st)"
    and "alertsRaised (runPasses tz [p1, p2] st) = Suc (alertsRaised st)"
    and "alertsRaised (runPasses tz [p1, p2, p3] st) = Suc (Suc (alertsRaised st))"
    and "lastExpirationAlertTime (runPasses tz [p1, p2, p3] st) = Some (toString (pass_now p3))"
proof -
  define s1 where "s1 = checkCriticalOrders tz (pass_today p1) (pass_now p1) (pass_orders p1) st"
  define s2 where "s2 = checkCriticalOrders tz (pass_today p2) (pass_now p2) (pass_orders p2) s1"
  define s3 where "s3 = checkCriticalOrders tz (pass_today p3) (pass_now p3) (pass_orders p3) s2"
  have s1: "lastExpirationAlertTime s1 = Some (toString (pass_now p1))"
    "alertsRaised s1 = Suc (alertsRaised st)"
    unfolding s1_def using pass_raises [OF c1, of st undefined "pass_now p1"] none by simp_all
  have s2: "s2 = s1"
    unfolding s2_def by (rule pass_suppressed [OF s1(1) near])
  have s3: "lastExpirationAlertTime s3 = Some (toString (pass_now p3))"
    "alertsRaised s3 = Suc (alertsRaised s1)"
    unfolding s3_def s2
    using pass_raises [OF c3, of s1 "pass_now p1" "pass_now p3"] s1(1) far by simp_all
  show "alertsRaised (runPasses tz [p1] st) = Suc (alertsRaised st)"
    using s1 by (simp add: s1_def)
  show "alertsRaised (runPasses tz [p1, p2] st) = Suc (alertsRaised st)"
    using s1 s2 by (simp add: s1_def s2_def)
  show "alertsRaised (runPasses tz [p1, p2, p3] st) = Suc (Suc (alertsRaised st))"
    using s1 s3 by (simp add: s1_def s2_def s3_def)
  show "lastExpirationAlertTime (runPasses tz [p1, p2, p3] st) = Some (toString (pass_now p3))"
    using s3 by (simp add: s1_def s2_def s3_def)
qed

text \<open>
  C6.  The last-alert timestamp is the decimal string an alerting pass wrote.  A pass that
  finds it written at most five hours before its own clock value changes nothing: no alert,
  same timestamp.  A pass that finds a non-empty critical set and either no timestamp or one
  more than five hours old raises one alert, carrying the count and the client names of the
  critical orders, and stamps its clock value.  Hence, starting without a timestamp, of
  three passes with non-empty critical sets, the second within five hours of the first and
  the third more than five hours after the first, the first and the third raise an alert and
  the second does not.  Across any sequence of passes the timestamp stays absent or a string
  written by a pass, so the two rules apply to every pass of the sequence.
\<close>

theorem alert_debounce:
  "(lastExpirationAlertTime st = Some (toString t0) \<and> now - t0 \<le> FIVE_HOURS
      \<longrightarrow> checkCriticalOrders tz today now orders st = st)
   \<and> (filter (isOrderCritical tz today) orders \<noteq> []
        \<and> (lastExpirationAlertTime st = None
           \<or> lastExpirationAlertTime st = Some (toString t0) \<and> FIVE_HOURS < now - t0)
      \<longrightarrow> checkCriticalOrders tz today now orders st =
            st\<lparr> urgentAlert :=
                  \<lparr> alert_count = length (filter (isOrderCritical tz today) orders),
                    alert_names = map clientName (filter (isOrderCritical tz today) orders),
                    alert_show = True \<rparr>,
                lastExpirationAlertTime := Some (toString now),
                alertsRaised := Suc (alertsRaised st) \<rparr>)
   \<and> (lastExpirationAlertTime st = None
        \<and> filter (isOrderCritical tz (pass_today p1)) (pass_orders p1) \<noteq> []
        \<and> filter (isOrderCritical tz (pass_today p2)) (pass_orders p2) \<noteq> []
        \<and> filter (isOrderCritical tz (pass_today p3)) (pass_orders p3) \<noteq> []
        \<and> pass_now p2 - pass_now p1 \<le> FIVE_HOURS
        \<and> FIVE_HOURS < pass_now p3 - pass_now p1
      \<longrightarrow> alertsRaised (runPasses tz [p1] st) = Suc (alertsRaised st)
        \<and> alertsRaised (runPasses tz [p1, p2] st) = Suc (alertsRaised st)
        \<and> alertsRaised (runPasses tz [p1, p2, p3] st) = Suc (Suc (alertsRaised st))
        \<and> lastExpirationAlertTime (runPasses tz [p1, p2, p3] st)
            = Some (toString (pass_now p3)))
   \<and> (lastExpirationAlertTime st = None \<or> (\<exists>t. lastExpirationAlertTime st = Some (toString t))
      \<longrightarrow> lastExpirationAlertTime (runPasses tz ps st) = None
        \<or> (\<exists>t. lastExpirationAlertTime (runPasses tz ps st) = Some (toString t)))"
proof (intro conjI impI)
  assume "lastExpirationAlertTime st = Some (toString t0) \<and> now - t0 \<le> FIVE_HOURS"
  then show "checkCriticalOrders tz today now orders st = st"
    using pass_suppressed by blast
next
  assume h: "filter (isOrderCritical tz today) orders \<noteq> []
             \<and> (lastExpirationAlertTime st = None
                \<or> lastExpirationAlertTime st = Some (toString t0) \<and> FIVE_HOURS < now - t0)"
  show "checkCriticalOrders tz today now orders st =
          st\<lparr> urgentAlert :=
                \<lparr> alert_count = length (filter (isOrderCritical tz today) orders),
                  alert_names = map clientName (filter (isOrderCritical tz today) orders),
                  alert_show = True \<rparr>,
              lastExpirationAlertTime := Some (toString now),
              alertsRaised := Suc (alertsRaised st) \<rparr>"
    by (rule pass_raises [OF h [THEN conjunct1] h [THEN conjunct2]])
next
  assume h: "lastExpirationAlertTime st = None
        \<and> filter (isOrderCritical tz (pass_today p1)) (pass_orders p1) \<noteq> []
        \<and> filter (isOrderCritical tz (pass_today p2)) (pass_orders p2) \<noteq> []
        \<and> filter (isOrderCritical tz (pass_today p3)) (pass_orders p3) \<noteq> []
        \<and> pass_now p2 - pass_now p1 \<le> FIVE_HOURS
        \<and> FIVE_HOURS < pass_now p3 - pass_now p1"
  note parts = h [THEN conjunct1] h [THEN conjunct2, THEN conjunct1]
    h [THEN conjunct2, THEN conjunct2, THEN conjunct1]
    h [THEN conjunct2, THEN conjunct2, THEN conjunct2, THEN conjunct1]
    h [THEN conjunct2, THEN conjunct2, THEN conjunct2, THEN conjunct2, THEN conjunct1]
    h [THEN conjunct2, THEN conjunct2, THEN conjunct2, THEN conjunct2, THEN conjunct2]
  show "alertsRaised (runPasses tz [p1] st) = Suc (alertsRaised st)"
    by (rule three_passes(1) [OF parts])
  show "alertsRaised (runPasses tz [p1, p2] st) = Suc (alertsRaised st)"
    by (rule three_passes(2) [OF parts])
  show "alertsRaised (runPasses tz [p1, p2, p3] st) = Suc (Suc (alertsRaised st))"
    by (rule three_passes(3) [OF parts])
  show "lastExpirationAlertTime (runPasses tz [p1, p2, p3] st) = Some (toString (pass_now p3))"
    by (rule three_passes(4) [OF parts])
next
  assume "lastExpirationAlertTime st = None \<or> (\<exists>t. lastExpirationAlertTime st = Some (toString t))"
  then show "lastExpirationAlertTime (runPasses tz ps st) = None
        \<or> (\<exists>t. lastExpirationAlertTime (runPasses tz ps st) = Some (toString t))"
    by (rule runPasses_keeps_store_shape)
qed

lemma critical_example:
  "filter (isOrderCritical (\<lambda>_. - 10800000) \<lparr> fullYear = 2024, monthIndex = 5, dayOfMonth = 10 \<rparr>)
     [scenarioOrder ''A'' ''2024-06-12'' Stage20] \<noteq> []"
  by code_simp

lemma toString_example: "toString 1718028000000 = ''1718028000000''"
  by code_simp

theorem alert_debounce_witness:
  "alertsRaised
     (runPasses (\<lambda>_. - 10800000)
        [\<lparr> pass_today = \<lparr> fullYear = 2024, monthIndex = 5, dayOfMonth = 10 \<rparr>,
           pass_now = 1718028000000,
           pass_orders = [scenarioOrder ''A'' ''2024-06-12'' Stage20] \<rparr>,
         \<lparr> pass_today = \<lparr> fullYear = 2024, monthIndex = 5, dayOfMonth = 10 \<rparr>,
           pass_now = 1718028060000,
           pass_orders = [scenarioOrder ''A'' ''2024-06-12'' Stage20] \<rparr>]
        \<lparr> urgentAlert = \<lparr> alert_count = 0, alert_names = [], alert_show = False \<rparr>,
          lastExpirationAlertTime = None, alertsRaised = 0 \<rparr>) = 1
   \<and> alertsRaised
     (runPasses (\<lambda>_. - 10800000)
        [\<lparr> pass_today = \<lparr> fullYear = 2024, monthIndex = 5, dayOfMonth = 10 \<rparr>,
           pass_now = 1718028000000,
           pass_orders = [scenarioOrder ''A'' ''2024-06-12'' Stage20] \<rparr>,
         \<lparr> pass_today = \<lparr> fullYear = 2024, monthIndex = 5, dayOfMonth = 10 \<rparr>,
           pass_now = 1718028060000,
           pass_orders = [scenarioOrder ''A'' ''2024-06-12'' Stage20] \<rparr>,
         \<lparr> pass_today = \<lparr> fullYear = 2024, monthIndex = 5, dayOfMonth = 10 \<rparr>,
           pass_now = 1718046000001,
           pass_orders = [scenarioOrder ''A'' ''2024-06-12'' Stage20] \<rparr>]
        \<lparr> urgentAlert = \<lparr> alert_count = 0, alert_names = [], alert_show = False \<rparr>,
          lastExpirationAlertTime = None, alertsRaised = 0 \<rparr>) = 2
   \<and> checkCriticalOrders (\<lambda>_. - 10800000)
       \<lparr> fullYear = 2024, monthIndex = 5, dayOfMonth = 10 \<rparr> 1718046000000
       [scenarioOrder ''A'' ''2024-06-12'' Stage20]
       \<lparr> urgentAlert = \<lparr> alert_count = 1, alert_names = [''A''], alert_show = False \<rparr>,
         lastExpirationAlertTime = Some ''1718028000000'', alertsRaised = 1 \<rparr>
     = \<lparr> urgentAlert = \<lparr> alert_count = 1, alert_names = [''A''], alert_show = False \<rparr>,
         lastExpirationAlertTime = Some ''1718028000000'', alertsRaised = 1 \<rparr>
   \<and> alertsRaised
       (checkCriticalOrders (\<lambda>_. - 10800000)
          \<lparr> fullYear = 2024, monthIndex = 5, dayOfMonth = 10 \<rparr> 1718046000001
          [scenarioOrder ''A'' ''2024-06-12'' Stage20]
          \<lparr> urgentAlert = \<lparr> alert_count = 1, alert_names = [''A''], alert_show = False \<rparr>,
            lastExpirationAlertTime = Some ''1718028000000'', alertsRaised = 1 \<rparr>) = 2"
proof -
  let ?tz = "\<lambda>_::int. - 10800000 :: int"
  let ?today = "\<lparr> fullYear = 2024, monthIndex = 5, dayOfMonth = 10 \<rparr>"
  let ?orders = "[scenarioOrder ''A'' ''2024-06-12'' Stage20]"
  let ?st0 = "\<lparr> urgentAlert = \<lparr> alert_count = 0, alert_names = [], alert_show = False \<rparr>,
                lastExpirationAlertTime = None, alertsRaised = 0 \<rparr>"
  let ?st1 = "\<lparr> urgentAlert = \<lparr> alert_count = 1, alert_names = [''A''], alert_show = False \<rparr>,
                lastExpirationAlertTime = Some ''1718028000000'', alertsRaised = 1 \<rparr>"
  let ?p1 = "\<lparr> pass_today = ?today, pass_now = 1718028000000, pass_orders = ?orders \<rparr>"
  let ?p2 = "\<lparr> pass_today = ?today, pass_now = 1718028060000, pass_orders = ?orders \<rparr>"
  let ?p3 = "\<lparr> pass_today = ?today, pass_now = 1718046000001, pass_orders = ?orders \<rparr>"
  have seq: "alertsRaised (runPasses ?tz [?p1, ?p2] ?st0) = 1
             \<and> alertsRaised (runPasses ?tz [?p1, ?p2, ?p3] ?st0) = 2"
    using alert_debounce [where st = ?st0 and tz = ?tz and ?p1.0 = ?p1 and ?p2.0 = ?p2
        and ?p3.0 = ?p3, THEN conjunct2, THEN conjunct2, THEN conjunct1] critical_example
    by (simp add: FIVE_HOURS_def)
  have quiet: "checkCriticalOrders ?tz ?today 1718046000000 ?orders ?st1 = ?st1"
    using alert_debounce [where st = ?st1 and ?t0.0 = 1718028000000 and now = 1718046000000
        and tz = ?tz and today = ?today and orders = ?orders, THEN conjunct1]
    by (simp add: FIVE_HOURS_def toString_example)
  have again: "alertsRaised (checkCriticalOrders ?tz ?today 1718046000001 ?orders ?st1) = 2"
    using alert_debounce [where st = ?st1 and ?t0.0 = 1718028000000 and now = 1718046000001
        and tz = ?tz and today = ?today and orders = ?orders, THEN conjunct2, THEN conjunct1]
      critical_example
    by (simp add: FIVE_HOURS_def toString_example)
  from seq quiet again show ?thesis by (intro conjI) simp_all
qed

section \<open>Role entries of the extras\<close>

lemma filter_type_other:
  "filter (\<lambda>e. extra_type e = ty) (filter (\<lambda>e. extra_type e \<noteq> ty) xs) = []"
  by (induction xs) simp_all

lemma filter_type_keep:
  "ty' \<noteq> ty \<Longrightarrow>
   filter (\<lambda>e. extra_type e = ty') (filter (\<lambda>e. extra_type e \<noteq> ty) xs)
     = filter (\<lambda>e. extra_type e = ty') xs"
  by (induction xs) auto

lemma updateRole_role_entries:
  "filter (\<lambda>e. extra_type e = ty) (updateRole now ty field v xs) =
     (if num_gt (newRoleQty ty field v xs) (Fin 0) \<or> num_gt (newRoleCost ty field v xs) (Fin 0)
      then [\<lparr> extra_id = ''auto-'' @ serviceTypeString ty @ ''-'' @ toString now,
              extra_type = ty,
              extra_name = (case find (\<lambda>c. role_type c = ty) ROLE_CONFIGS of
                              Some c \<Rightarrow> if role_label c \<noteq> [] then role_label c
                                        else serviceTypeString ty
                            | None \<Rightarrow> serviceTypeString ty),
              qty = newRoleQty ty field v xs,
              cost = newRoleCost ty field v xs \<rparr>]
      else [])"
  by (simp add: updateRole_def Let_def newRoleQty_def newRoleCost_def filter_type_other
      del: filter_filter)

lemma updateRole_other_entries:
  "ty' \<noteq> ty \<Longrightarrow>
   filter (\<lambda>e. extra_type e = ty') (updateRole now ty field v xs)
     = filter (\<lambda>e. extra_type e = ty') xs"
  by (simp add: updateRole_def Let_def filter_type_keep del: filter_filter)

lemma updateRole_at_most_one:
  "length (filter (\<lambda>e. extra_type e = ty) (updateRole now ty field v xs)) \<le> 1"
  by (simp add: updateRole_role_entries)

lemma updateRole_invariant:
  assumes "\<forall>r. r \<noteq> other \<longrightarrow> length (filter (\<lambda>e. extra_type e = r) xs) \<le> 1"
  shows "\<forall>r. r \<noteq> other \<longrightarrow>
           length (filter (\<lambda>e. extra_type e = r) (updateRole now ty field v xs)) \<le> 1"
proof (intro allI impI)
  fix r :: ServiceType
  assume "r \<noteq> other"
  show "length (filter (\<lambda>e. extra_type e = r) (updateRole now ty field v xs)) \<le> 1"
  proof (cases "r = ty")
    case True
    then show ?thesis using updateRole_at_most_one [of ty now field v xs] by simp
  next
    case False
    then show ?thesis using assms \<open>r \<noteq> other\<close> by (simp add: updateRole_other_entries)
  qed
qed

lemma Math_max_negative: "num_less v (Fin 0) \<Longrightarrow> Math_max (Fin 0) v = Fin 0"
  by (cases v) (simp_all add: Math_max_def)

lemma Math_max_zero: "Math_max (Fin 0) (Fin 0) = Fin 0"
  by (simp add: Math_max_def)

lemma updateRole_clamps:
  "num_less v (Fin 0) \<Longrightarrow> updateRole now ty field v xs = updateRole now ty field (Fin 0) xs"
  by (simp add: updateRole_def Math_max_negative Math_max_zero)

lemma roundDouble_zero: "roundDouble 0 = Fin 0"
  by (simp add: roundDouble_def)

lemma num_add_zero_zero: "num_add (Fin 0) (Fin 0) = Fin 0"
  by (simp add: roundDouble_def)

lemma getRoleData_items:
  "getRoleData xs ty =
     (foldl (\<lambda>acc curr. num_add acc (qty curr)) (Fin 0) (filter (\<lambda>e. extra_type e = ty) xs),
      if filter (\<lambda>e. extra_type e = ty) xs \<noteq> []
      then cost (hd (filter (\<lambda>e. extra_type e = ty) xs)) else Fin 0)"
proof -
  have "(case find (\<lambda>r. role_type r = ty) ROLE_CONFIGS of
           Some r \<Rightarrow> if num_truthy (defaultCost r) then defaultCost r else Fin 0
         | None \<Rightarrow> Fin 0) = Fin 0"
    by (cases ty) (simp_all add: ROLE_CONFIGS_def num_truthy_def)
  then show ?thesis
    by (simp add: getRoleData_def Let_def hd_conv_nth)
qed

lemma not_gt_zero: "\<not> num_gt (Fin 0) (Fin 0)"
  by (simp add: num_gt_def)

lemma clear_qty_then_cost:
  "filter (\<lambda>e. extra_type e = ty)
     (updateRole n2 ty CostField (Fin 0) (updateRole n1 ty QtyField (Fin 0) xs)) = []"
proof -
  let ?ys = "updateRole n1 ty QtyField (Fin 0) xs"
  have "newRoleQty ty CostField (Fin 0) ?ys = Fin 0"
    by (simp add: newRoleQty_def getRoleData_items updateRole_role_entries [of ty n1]
        Math_max_zero num_add_zero_zero roundDouble_zero)
  moreover have "newRoleCost ty CostField (Fin 0) ?ys = Fin 0"
    by (simp add: newRoleCost_def Math_max_zero)
  ultimately show ?thesis
    by (simp add: updateRole_role_entries [of ty n2] not_gt_zero)
qed

lemma clear_cost_then_qty:
  "filter (\<lambda>e. extra_type e = ty)
     (updateRole n2 ty QtyField (Fin 0) (updateRole n1 ty CostField (Fin 0) xs)) = []"
proof -
  let ?ys = "updateRole n1 ty CostField (Fin 0) xs"
  have "newRoleCost ty QtyField (Fin 0) ?ys = Fin 0"
    by (simp add: newRoleCost_def getRoleData_items updateRole_role_entries [of ty n1]
        Math_max_zero roundDouble_zero)
  moreover have "newRoleQty ty QtyField (Fin 0) ?ys = Fin 0"
    by (simp add: newRoleQty_def Math_max_zero)
  ultimately show ?thesis
    by (simp add: updateRole_role_entries [of ty n2] not_gt_zero)
qed

lemma num_add_zero_left: "isDouble x \<Longrightarrow> num_add (Fin 0) x = x"
  by (cases x) (simp_all add: isDouble_def)

lemma role_label:
  "(case find (\<lambda>c. role_type c = ty) ROLE_CONFIGS of
      Some c \<Rightarrow> if role_label c \<noteq> [] then role_label c else serviceTypeString ty
    | None \<Rightarrow> serviceTypeString ty)
   = (case ty of helper \<Rightarrow> ''Ajudantes'' | assembler \<Rightarrow> ''Montadores''
      | packer \<Rightarrow> ''Embaladores'' | other \<Rightarrow> ''other'')"
  by (cases ty) (simp_all add: ROLE_CONFIGS_def)

lemma getRoleData_explicit:
  "getRoleData xs ty =
     (qtySum (filter (\<lambda>e. extra_type e = ty) xs), firstCost (filter (\<lambda>e. extra_type e = ty) xs))"
  by (cases "filter (\<lambda>e. extra_type e = ty) xs")
     (simp_all add: getRoleData_items qtySum_def firstCost_def)

lemma updateRole_explicit:
  "updateRole now ty field v xs =
     filter (\<lambda>e. extra_type e \<noteq> ty) xs @
     (let q = (if field = QtyField then Math_max (Fin 0) v
               else qtySum (filter (\<lambda>e. extra_type e = ty) xs));
          c = (if field = CostField then Math_max (Fin 0) v
               else firstCost (filter (\<lambda>e. extra_type e = ty) xs))
      in if num_gt q (Fin 0) \<or> num_gt c (Fin 0) then [roleEntry now ty q c] else [])"
  unfolding updateRole_def getRoleData_explicit roleEntry_def role_label Let_def
  by simp

lemma updateRole_order:
  "updateRole now ty field v xs =
     filter (\<lambda>e. extra_type e \<noteq> ty) xs
     @ filter (\<lambda>e. extra_type e = ty) (updateRole now ty field v xs)"
  by (simp add: updateRole_explicit Let_def roleEntry_def filter_type_other del: filter_filter)

lemma updateRole_entries_explicit:
  "filter (\<lambda>e. extra_type e = ty) (updateRole now ty field v xs) =
     (let q = (if field = QtyField then Math_max (Fin 0) v
               else qtySum (filter (\<lambda>e. extra_type e = ty) xs));
          c = (if field = CostField then Math_max (Fin 0) v
               else firstCost (filter (\<lambda>e. extra_type e = ty) xs))
      in if num_gt q (Fin 0) \<or> num_gt c (Fin 0) then [roleEntry now ty q c] else [])"
  by (simp add: updateRole_explicit Let_def roleEntry_def filter_type_other del: filter_filter)

lemma updateRole_qty_keeps_cost:
  assumes "filter (\<lambda>e. extra_type e = ty) xs = [e]"
  shows "filter (\<lambda>e. extra_type e = ty) (updateRole now ty QtyField v xs) =
     (if num_gt (Math_max (Fin 0) v) (Fin 0) \<or> num_gt (cost e) (Fin 0)
      then [roleEntry now ty (Math_max (Fin 0) v) (cost e)] else [])"
  by (simp add: updateRole_entries_explicit assms firstCost_def)

lemma updateRole_cost_keeps_qty:
  assumes "filter (\<lambda>e. extra_type e = ty) xs = [e]" "isDouble (qty e)"
  shows "filter (\<lambda>e. extra_type e = ty) (updateRole now ty CostField v xs) =
     (if num_gt (qty e) (Fin 0) \<or> num_gt (Math_max (Fin 0) v) (Fin 0)
      then [roleEntry now ty (qty e) (Math_max (Fin 0) v)] else [])"
  by (simp add: updateRole_entries_explicit assms(1) qtySum_def num_add_zero_left [OF assms(2)])

lemma updateRole_first_write:
  assumes "filter (\<lambda>e. extra_type e = ty) xs = []"
  shows "filter (\<lambda>e. extra_type e = ty) (updateRole now ty field v xs) =
     (if num_gt (Math_max (Fin 0) v) (Fin 0)
      then [roleEntry now ty (if field = QtyField then Math_max (Fin 0) v else Fin 0)
              (if field = CostField then Math_max (Fin 0) v else Fin 0)]
      else [])"
  by (cases field) (simp_all add: updateRole_entries_explicit assms firstCost_def qtySum_def not_gt_zero Let_def)

lemma role_scenarios:
  "list_all (\<lambda>role.
      updateRole 1718000003000 role CostField (Fin 50)
        (updateRole 1718000002000 role CostField (Fin 0)
          (updateRole 1718000001000 role QtyField (Fin 3) []))
        = [roleEntry 1718000003000 role (Fin 3) (Fin 50)]
      \<and> updateRole 1718000002000 role QtyField (Fin 3)
          (updateRole 1718000001000 role CostField (Fin 50) [])
        = [roleEntry 1718000002000 role (Fin 3) (Fin 50)]
      \<and> updateRole 1718000003000 role QtyField (Fin 5)
          (updateRole 1718000002000 role QtyField (Fin 3)
            (updateRole 1718000001000 role CostField (Fin 50) []))
        = [roleEntry 1718000003000 role (Fin 5) (Fin 50)])
     [helper, assembler, packer]"
  by code_simp

text \<open>
  C5.  After \<open>updateRole\<close> for a role the extras hold at most one entry of that role, and when
  each of the three fixed roles had at most one entry before, each has at most one after.
  The result is the entries of the other types, untouched and in their order, followed by
  the entry of the role, if any.  The entry is present exactly when the new quantity or the
  new cost is above zero, and then it is the single entry of the role, with the new quantity
  and the new cost: the written field takes the input, a negative input counting as 0, and
  the other field keeps what the role had, the total quantity of its earlier entries or the
  cost of the first of them (0 when there was none).  So with one earlier entry a quantity
  write keeps its cost and a cost write keeps its quantity.  Setting quantity and cost to 0,
  in either order, leaves no entry of the role.  Starting from no extras, for each of the
  three roles: quantity 3, then cost 0, then cost 50 gives exactly one entry, with quantity
  3 and cost 50; so does cost 50, then quantity 3; and a further quantity 5 gives exactly
  one entry with quantity 5 and cost 50.
\<close>

theorem update_role_upsert:
  "length (filter (\<lambda>e. extra_type e = ty) (updateRole now ty field v xs)) \<le> 1
   \<and> ((\<forall>r. r \<noteq> other \<longrightarrow> length (filter (\<lambda>e. extra_type e = r) xs) \<le> 1)
      \<longrightarrow> (\<forall>r. r \<noteq> other \<longrightarrow>
             length (filter (\<lambda>e. extra_type e = r) (updateRole now ty field v xs)) \<le> 1))
   \<and> updateRole now ty field v xs =
       filter (\<lambda>e. extra_type e \<noteq> ty) xs
       @ filter (\<lambda>e. extra_type e = ty) (updateRole now ty field v xs)
   \<and> filter (\<lambda>e. extra_type e = ty) (updateRole now ty field v xs) =
       (let q = (if field = QtyField then Math_max (Fin 0) v
                 else qtySum (filter (\<lambda>e. extra_type e = ty) xs));
            c = (if field = CostField then Math_max (Fin 0) v
                 else firstCost (filter (\<lambda>e. extra_type e = ty) xs))
        in if num_gt q (Fin 0) \<or> num_gt c (Fin 0) then [roleEntry now ty q c] else [])
   \<and> (filter (\<lambda>e. extra_type e = ty) xs = [e] \<longrightarrow>
        filter (\<lambda>e. extra_type e = ty) (updateRole now ty QtyField v xs) =
          (if num_gt (Math_max (Fin 0) v) (Fin 0) \<or> num_gt (cost e) (Fin 0)
           then [roleEntry now ty (Math_max (Fin 0) v) (cost e)] else []))
   \<and> (filter (\<lambda>e. extra_type e = ty) xs = [e] \<and> isDouble (qty e) \<longrightarrow>
        filter (\<lambda>e. extra_type e = ty) (updateRole now ty CostField v xs) =
          (if num_gt (qty e) (Fin 0) \<or> num_gt (Math_max (Fin 0) v) (Fin 0)
           then [roleEntry now ty (qty e) (Math_max (Fin 0) v)] else []))
   \<and> (filter (\<lambda>e. extra_type e = ty) xs = [] \<longrightarrow>
        filter (\<lambda>e. extra_type e = ty) (updateRole now ty field v xs) =
          (if num_gt (Math_max (Fin 0) v) (Fin 0)
           then [roleEntry now ty (if field = QtyField then Math_max (Fin 0) v else Fin 0)
                   (if field = CostField then Math_max (Fin 0) v else Fin 0)]
           else []))
   \<and> (ty' \<noteq> ty \<longrightarrow>
        filter (\<lambda>e. extra_type e = ty') (updateRole now ty field v xs)
          = filter (\<lambda>e. extra_type e = ty') xs)
   \<and> (num_less v (Fin 0) \<longrightarrow>
        Math_max (Fin 0) v = Fin 0
        \<and> updateRole now ty field v xs = updateRole now ty field (Fin 0) xs)
   \<and> filter (\<lambda>e. extra_type e = ty)
       (updateRole n2 ty CostField (Fin 0) (updateRole n1 ty QtyField (Fin 0) xs)) = []
   \<and> filter (\<lambda>e. extra_type e = ty)
       (updateRole n2 ty QtyField (Fin 0) (updateRole n1 ty CostField (Fin 0) xs)) = []
   \<and> list_all (\<lambda>role.
        updateRole 1718000003000 role CostField (Fin 50)
          (updateRole 1718000002000 role CostField (Fin 0)
            (updateRole 1718000001000 role QtyField (Fin 3) []))
          = [roleEntry 1718000003000 role (Fin 3) (Fin 50)]
        \<and> updateRole 1718000002000 role QtyField (Fin 3)
            (updateRole 1718000001000 role CostField (Fin 50) [])
          = [roleEntry 1718000002000 role (Fin 3) (Fin 50)]
        \<and> updateRole 1718000003000 role QtyField (Fin 5)
            (updateRole 1718000002000 role QtyField (Fin 3)
              (updateRole 1718000001000 role CostField (Fin 50) []))
          = [roleEntry 1718000003000 role (Fin 5) (Fin 50)])
       [helper, assembler, packer]"
proof (intro conjI impI)
  show "length (filter (\<lambda>e. extra_type e = ty) (updateRole now ty field v xs)) \<le> 1"
    by (rule updateRole_at_most_one)
  show "\<forall>r. r \<noteq> other \<longrightarrow>
          length (filter (\<lambda>e. extra_type e = r) (updateRole now ty field v xs)) \<le> 1"
    if "\<forall>r. r \<noteq> other \<longrightarrow> length (filter (\<lambda>e. extra_type e = r) xs) \<le> 1"
    using that by (rule updateRole_invariant)
  show "updateRole now ty field v xs =
          filter (\<lambda>e. extra_type e \<noteq> ty) xs
          @ filter (\<lambda>e. extra_type e = ty) (updateRole now ty field v xs)"
    by (rule updateRole_order)
  show "filter (\<lambda>e. extra_type e = ty) (updateRole now ty field v xs) =
       (let q = (if field = QtyField then Math_max (Fin 0) v
                 else qtySum (filter (\<lambda>e. extra_type e = ty) xs));
            c = (if field = CostField then Math_max (Fin 0) v
                 else firstCost (filter (\<lambda>e. extra_type e = ty) xs))
        in if num_gt q (Fin 0) \<or> num_gt c (Fin 0) then [roleEntry now ty q c] else [])"
    by (rule updateRole_entries_explicit)
  show "filter (\<lambda>e. extra_type e = ty) (updateRole now ty QtyField v xs) =
          (if num_gt (Math_max (Fin 0) v) (Fin 0) \<or> num_gt (cost e) (Fin 0)
           then [roleEntry now ty (Math_max (Fin 0) v) (cost e)] else [])"
    if "filter (\<lambda>e. extra_type e = ty) xs = [e]"
    using that by (rule updateRole_qty_keeps_cost)
  show "filter (\<lambda>e. extra_type e = ty) (updateRole now ty CostField v xs) =
          (if num_gt (qty e) (Fin 0) \<or> num_gt (Math_max (Fin 0) v) (Fin 0)
           then [roleEntry now ty (qty e) (Math_max (Fin 0) v)] else [])"
    if "filter (\<lambda>e. extra_type e = ty) xs = [e] \<and> isDouble (qty e)"
    using that by (intro updateRole_cost_keeps_qty) simp_all
  show "filter (\<lambda>e. extra_type e = ty) (updateRole now ty field v xs) =
          (if num_gt (Math_max (Fin 0) v) (Fin 0)
           then [roleEntry now ty (if field = QtyField then Math_max (Fin 0) v else Fin 0)
                   (if field = CostField then Math_max (Fin 0) v else Fin 0)]
           else [])"
    if "filter (\<lambda>e. extra_type e = ty) xs = []"
    using that by (rule updateRole_first_write)
  show "filter (\<lambda>e. extra_type e = ty') (updateRole now ty field v xs)
          = filter (\<lambda>e. extra_type e = ty') xs"
    if "ty' \<noteq> ty"
    using that by (rule updateRole_other_entries)
  show "Math_max (Fin 0) v = Fin 0" if "num_less v (Fin 0)"
    using that by (rule Math_max_negative)
  show "updateRole now ty field v xs = updateRole now ty field (Fin 0) xs" if "num_less v (Fin 0)"
    using that by (rule updateRole_clamps)
  show "filter (\<lambda>e. extra_type e = ty)
       (updateRole n2 ty CostField (Fin 0) (updateRole n1 ty QtyField (Fin 0) xs)) = []"
    by (rule clear_qty_then_cost)
  show "filter (\<lambda>e. extra_type e = ty)
       (updateRole n2 ty QtyField (Fin 0) (updateRole n1 ty CostField (Fin 0) xs)) = []"
    by (rule clear_cost_then_qty)
  show "list_all (\<lambda>role.
        updateRole 1718000003000 role CostField (Fin 50)
          (updateRole 1718000002000 role CostField (Fin 0)
            (updateRole 1718000001000 role QtyField (Fin 3) []))
          = [roleEntry 1718000003000 role (Fin 3) (Fin 50)]
        \<and> updateRole 1718000002000 role QtyField (Fin 3)
            (updateRole 1718000001000 role CostField (Fin 50) [])
          = [roleEntry 1718000002000 role (Fin 3) (Fin 50)]
        \<and> updateRole 1718000003000 role QtyField (Fin 5)
            (updateRole 1718000002000 role QtyField (Fin 3)
              (updateRole 1718000001000 role CostField (Fin 50) []))
          = [roleEntry 1718000003000 role (Fin 5) (Fin 50)])
       [helper, assembler, packer]"
    by (rule role_scenarios)
qed

lemma isDouble_3: "isDouble (Fin 3)"
  using roundDouble_int_exact [of 3] by (simp add: isDouble_def)

theorem update_role_upsert_witness:
  "updateRole 1718000001000 helper QtyField (Fin 5)
     [\<lparr> extra_id = ''k3x9'', extra_type = other, extra_name = ''Seguro'', qty = Fin 1, cost = Fin 80 \<rparr>,
      roleEntry 1718000000000 helper (Fin 3) (Fin 50)]
     = [\<lparr> extra_id = ''k3x9'', extra_type = other, extra_name = ''Seguro'', qty = Fin 1, cost = Fin 80 \<rparr>,
        roleEntry 1718000001000 helper (Fin 5) (Fin 50)]
   \<and> updateRole 1718000001000 helper CostField (Fin 70)
     [\<lparr> extra_id = ''k3x9'', extra_type = other, extra_name = ''Seguro'', qty = Fin 1, cost = Fin 80 \<rparr>,
      roleEntry 1718000000000 helper (Fin 3) (Fin 50)]
     = [\<lparr> extra_id = ''k3x9'', extra_type = other, extra_name = ''Seguro'', qty = Fin 1, cost = Fin 80 \<rparr>,
        roleEntry 1718000001000 helper (Fin 3) (Fin 70)]
   \<and> updateRole 1718000001000 helper QtyField (Fin (- 2))
     [\<lparr> extra_id = ''k3x9'', extra_type = other, extra_name = ''Seguro'', qty = Fin 1, cost = Fin 80 \<rparr>,
      roleEntry 1718000000000 helper (Fin 3) (Fin 50)]
     = [\<lparr> extra_id = ''k3x9'', extra_type = other, extra_name = ''Seguro'', qty = Fin 1, cost = Fin 80 \<rparr>,
        roleEntry 1718000001000 helper (Fin 0) (Fin 50)]
   \<and> updateRole 1718000001000 packer CostField (Fin 20)
     [\<lparr> extra_id = ''k3x9'', extra_type = other, extra_name = ''Seguro'', qty = Fin 1, cost = Fin 80 \<rparr>,
      roleEntry 1718000000000 helper (Fin 3) (Fin 50)]
     = [\<lparr> extra_id = ''k3x9'', extra_type = other, extra_name = ''Seguro'', qty = Fin 1, cost = Fin 80 \<rparr>,
        roleEntry 1718000000000 helper (Fin 3) (Fin 50),
        roleEntry 1718000001000 packer (Fin 0) (Fin 20)]
   \<and> (\<forall>r. r = other \<or> length (filter (\<lambda>e. extra_type e = r)
          (updateRole 1718000001000 helper QtyField (Fin 5)
            [\<lparr> extra_id = ''k3x9'', extra_type = other, extra_name = ''Seguro'', qty = Fin 1, cost = Fin 80 \<rparr>,
             roleEntry 1718000000000 helper (Fin 3) (Fin 50)])) \<le> 1)
   \<and> filter (\<lambda>e. extra_type e = other)
        (updateRole 1718000001000 helper QtyField (Fin 5)
          [\<lparr> extra_id = ''k3x9'', extra_type = other, extra_name = ''Seguro'', qty = Fin 1, cost = Fin 80 \<rparr>,
           roleEntry 1718000000000 helper (Fin 3) (Fin 50)])
     = [\<lparr> extra_id = ''k3x9'', extra_type = other, extra_name = ''Seguro'', qty = Fin 1, cost = Fin 80 \<rparr>]"
proof -
  let ?g = "\<lparr> extra_id = ''k3x9'', extra_type = other, extra_name = ''Seguro'', qty = Fin 1, cost = Fin 80 \<rparr>"
  let ?h = "roleEntry 1718000000000 helper (Fin 3) (Fin 50)"
  let ?xs = "[?g, ?h]"
  have role: "filter (\<lambda>e. extra_type e = helper) ?xs = [?h]"
    and rest: "filter (\<lambda>e. extra_type e \<noteq> helper) ?xs = [?g]"
    and none: "filter (\<lambda>e. extra_type e = packer) ?xs = []"
    and all: "filter (\<lambda>e. extra_type e \<noteq> packer) ?xs = ?xs"
    and h: "cost ?h = Fin 50" "qty ?h = Fin 3"
    by (simp_all add: roleEntry_def)
  have inv: "\<forall>r. r \<noteq> other \<longrightarrow> length (filter (\<lambda>e. extra_type e = r) ?xs) \<le> 1"
    by (simp add: roleEntry_def)
  have vals: "Math_max (Fin 0) (Fin 5) = Fin 5" "Math_max (Fin 0) (Fin 70) = Fin 70"
    "Math_max (Fin 0) (Fin 20) = Fin 20" "Math_max (Fin 0) (Fin 0) = Fin 0"
    "num_gt (Fin 5) (Fin 0)" "num_gt (Fin 3) (Fin 0)" "num_gt (Fin 50) (Fin 0)"
    "num_gt (Fin 20) (Fin 0)" "num_less (Fin (- 2)) (Fin 0)"
    by (simp_all add: Math_max_def num_gt_def)
  note q5 = update_role_upsert [of helper 1718000001000 QtyField "Fin 5" ?xs ?h other]
  note c70 = update_role_upsert [of helper 1718000001000 CostField "Fin 70" ?xs ?h other]
  note neg = update_role_upsert [of helper 1718000001000 QtyField "Fin (- 2)" ?xs ?h other]
  note q0 = update_role_upsert [of helper 1718000001000 QtyField "Fin 0" ?xs ?h other]
  note p20 = update_role_upsert [of packer 1718000001000 CostField "Fin 20" ?xs ?h other]
  have w1: "updateRole 1718000001000 helper QtyField (Fin 5) ?xs
              = [?g, roleEntry 1718000001000 helper (Fin 5) (Fin 50)]"
    using q5 [THEN conjunct2, THEN conjunct2, THEN conjunct1]
      q5 [THEN conjunct2, THEN conjunct2, THEN conjunct2, THEN conjunct2, THEN conjunct1]
    by (simp only: role rest h vals) simp
  have w2: "updateRole 1718000001000 helper CostField (Fin 70) ?xs
              = [?g, roleEntry 1718000001000 helper (Fin 3) (Fin 70)]"
    using c70 [THEN conjunct2, THEN conjunct2, THEN conjunct1]
      c70 [THEN conjunct2, THEN conjunct2, THEN conjunct2, THEN conjunct2, THEN conjunct2, THEN conjunct1] isDouble_3
    by (simp only: role rest h vals) simp
  have w3: "updateRole 1718000001000 helper QtyField (Fin (- 2)) ?xs
              = [?g, roleEntry 1718000001000 helper (Fin 0) (Fin 50)]"
    using neg [THEN conjunct2, THEN conjunct2, THEN conjunct2, THEN conjunct2, THEN conjunct2, THEN conjunct2, THEN conjunct2, THEN conjunct2, THEN conjunct1] q0 [THEN conjunct2, THEN conjunct2, THEN conjunct1] q0 [THEN conjunct2, THEN conjunct2, THEN conjunct2, THEN conjunct2, THEN conjunct1]
    by (simp only: role rest h vals) simp
  have w4: "updateRole 1718000001000 packer CostField (Fin 20) ?xs
              = [?g, ?h, roleEntry 1718000001000 packer (Fin 0) (Fin 20)]"
    using p20 [THEN conjunct2, THEN conjunct2, THEN conjunct1] p20 [THEN conjunct2, THEN conjunct2, THEN conjunct2, THEN conjunct2, THEN conjunct2, THEN conjunct2, THEN conjunct1]
    by (simp only: none all vals) simp
  have w5: "\<forall>r. r = other \<or> length (filter (\<lambda>e. extra_type e = r)
              (updateRole 1718000001000 helper QtyField (Fin 5) ?xs)) \<le> 1"
    using q5 [THEN conjunct2, THEN conjunct1] inv by blast
  have w6: "filter (\<lambda>e. extra_type e = other) (updateRole 1718000001000 helper QtyField (Fin 5) ?xs)
              = [?g]"
    using q5 [THEN conjunct2, THEN conjunct2, THEN conjunct2, THEN conjunct2, THEN conjunct2, THEN conjunct2, THEN conjunct2, THEN conjunct1] by (simp add: roleEntry_def)
  from w1 w2 w3 w4 w5 w6 show ?thesis by (intro conjI)
qed

section \<open>Filtered and sorted order list\<close>













end
